theory Spec2Isabelle
  imports Complex_Main "HOL-Library.Sublist"
begin

section \<open>JavaScript values\<close>

text \<open>
  The annotation compiler of \<^verbatim>\<open>annotate.js\<close> works on values parsed from JSON and on a
  few built-in objects that a property lookup on a plain object can reach through
  \<^verbatim>\<open>Object.prototype\<close>.

  \<^item> \<open>JNum r\<close> carries the mathematical value of a finite number. Arithmetic on numbers is
    exact: the rounding of IEEE-754 doubles, overflow to \<^verbatim>\<open>Infinity\<close> and \<^verbatim>\<open>NaN\<close> are not
    represented.
  \<^item> \<open>JStr s\<close> is a string; one \<open>char\<close> stands for one code unit, so the model is exact for
    ASCII text.
  \<^item> \<open>JFun n\<close> is the built-in function named \<open>n\<close>; \<open>JProto\<close> is \<^verbatim>\<open>Object.prototype\<close>
    itself.

  An object is a map from property names to values; a missing property reads as
  \<^verbatim>\<open>undefined\<close>. A field of a descriptor holds a primitive value or an array; a nested
  object as a field value is not represented.
\<close>

datatype jsval =
    JUndefined
  | JNull
  | JBool bool
  | JNum real
  | JStr string
  | JArr "jsval list"
  | JFun string
  | JProto

type_synonym obj = "string \<rightharpoonup> jsval"

text \<open>Errors: \<open>TypeError\<close> is the exception the JavaScript runtime throws; \<open>Unmodelled\<close>
  marks an input on which the source goes on computing with coerced values (a string or
  \<^verbatim>\<open>undefined\<close> in an arithmetic position, giving \<^verbatim>\<open>NaN\<close> or a concatenation) that this
  development does not follow. \<open>InputNotFound\<close> and \<open>ImageIoFailure\<close> belong to
  \<^verbatim>\<open>annotateImage\<close>.\<close>

datatype error = TypeError | Unmodelled | InputNotFound string | ImageIoFailure

text \<open>Reading a property: \<^verbatim>\<open>ann.x\<close>.\<close>

definition field :: "obj \<Rightarrow> string \<Rightarrow> jsval" where
  "field a k = (case a k of None \<Rightarrow> JUndefined | Some v \<Rightarrow> v)"

text \<open>A destructuring default, \<^verbatim>\<open>{ color = 'red' }\<close>: the default replaces \<^verbatim>\<open>undefined\<close>
  only (a missing property or an explicit \<^verbatim>\<open>undefined\<close>), not \<^verbatim>\<open>null\<close>.\<close>

definition fieldDefault :: "obj \<Rightarrow> string \<Rightarrow> jsval \<Rightarrow> jsval" where
  "fieldDefault a k d = (case field a k of JUndefined \<Rightarrow> d | v \<Rightarrow> v)"

text \<open>Truthiness, as tested by \<^verbatim>\<open>if (v)\<close>, \<^verbatim>\<open>v ? a : b\<close>, \<^verbatim>\<open>a || b\<close> and \<^verbatim>\<open>a && b\<close>.\<close>

fun truthy :: "jsval \<Rightarrow> bool" where
  "truthy JUndefined = False"
| "truthy JNull = False"
| "truthy (JBool b) = b"
| "truthy (JNum r) = (r \<noteq> 0)"
| "truthy (JStr s) = (s \<noteq> [])"
| "truthy (JArr xs) = True"
| "truthy (JFun n) = True"
| "truthy JProto = True"

text \<open>\<^verbatim>\<open>Array.prototype.join\<close> on strings.\<close>

fun join :: "string \<Rightarrow> string list \<Rightarrow> string" where
  "join sep [] = []"
| "join sep [x] = x"
| "join sep (x # y # ys) = x @ sep @ join sep (y # ys)"

text \<open>The conversion to a string that a template literal \<^verbatim>\<open>`${v}`\<close>, \<^verbatim>\<open>String(v)\<close> and a
  computed property key apply. The digits of a number are those of the runtime's
  \<^verbatim>\<open>Number::toString\<close>, taken as the parameter \<open>ns\<close>; as \<open>ns\<close> reads the exact value, two
  computations of the source that agree over the reals print alike here, also where
  their doubles differ in the last digit. An array is the comma-joined
  conversion of its elements, \<^verbatim>\<open>null\<close> and \<^verbatim>\<open>undefined\<close> elements giving the empty string;
  a built-in function prints as V8 prints native code.\<close>

fun toStr :: "(real \<Rightarrow> string) \<Rightarrow> jsval \<Rightarrow> string"
  and elemStr :: "(real \<Rightarrow> string) \<Rightarrow> jsval \<Rightarrow> string"
  and elemStrs :: "(real \<Rightarrow> string) \<Rightarrow> jsval list \<Rightarrow> string list" where
  "toStr ns JUndefined = ''undefined''"
| "toStr ns JNull = ''null''"
| "toStr ns (JBool b) = (if b then ''true'' else ''false'')"
| "toStr ns (JNum r) = ns r"
| "toStr ns (JStr s) = s"
| "toStr ns (JArr xs) = join '','' (elemStrs ns xs)"
| "toStr ns (JFun n) = ''function '' @ n @ ''() { [native code] }''"
| "toStr ns JProto = ''[object Object]''"
| "elemStr ns JUndefined = []"
| "elemStr ns JNull = []"
| "elemStr ns (JBool b) = toStr ns (JBool b)"
| "elemStr ns (JNum r) = toStr ns (JNum r)"
| "elemStr ns (JStr s) = toStr ns (JStr s)"
| "elemStr ns (JArr xs) = toStr ns (JArr xs)"
| "elemStr ns (JFun n) = toStr ns (JFun n)"
| "elemStr ns JProto = toStr ns JProto"
| "elemStrs ns [] = []"
| "elemStrs ns (v # vs) = elemStr ns v # elemStrs ns vs"

text \<open>Decimal digits of a natural number, and hexadecimal digits in lower case
  (\<^verbatim>\<open>Number::toString(16)\<close>).\<close>

definition digitChar :: "nat \<Rightarrow> char" where
  "digitChar d = ''0123456789abcdef'' ! d"

fun natStr :: "nat \<Rightarrow> string" where
  "natStr n = (if n < 10 then [digitChar n] else natStr (n div 10) @ [digitChar (n mod 10)])"

fun hexStr :: "nat \<Rightarrow> string" where
  "hexStr n = (if n < 16 then [digitChar n] else hexStr (n div 16) @ [digitChar (n mod 16)])"

declare natStr.simps [simp del] hexStr.simps [simp del]

section \<open>Colour palette and themes\<close>

text \<open>\<^verbatim>\<open>const COLORS = { red: '#E53935', ... }\<close>: the own properties of the palette.\<close>

definition COLORS :: "string \<rightharpoonup> string" where
  "COLORS = map_of
    [(''red'', ''#E53935''), (''orange'', ''#FB8C00''), (''yellow'', ''#FDD835''),
     (''green'', ''#43A047''), (''blue'', ''#1E88E5''), (''purple'', ''#8E24AA''),
     (''pink'', ''#D81B60''), (''cyan'', ''#00ACC1''), (''teal'', ''#00897B''),
     (''white'', ''#FFFFFF''), (''black'', ''#212121''), (''gray'', ''#757575''),
     (''lightGray'', ''#E0E0E0''), (''darkGray'', ''#424242''),
     (''success'', ''#4CAF50''), (''warning'', ''#FF9800''), (''error'', ''#F44336''),
     (''info'', ''#2196F3''),
     (''primary'', ''#1976D2''), (''secondary'', ''#7B1FA2''), (''accent'', ''#FF4081'')]"

text \<open>\<^verbatim>\<open>COLORS\<close> is an object literal, so its prototype is \<^verbatim>\<open>Object.prototype\<close> and a lookup
  \<^verbatim>\<open>COLORS[key]\<close> that finds no own property continues there. These are the properties of
  \<^verbatim>\<open>Object.prototype\<close>: ten methods, the \<^verbatim>\<open>constructor\<close> (the function \<^verbatim>\<open>Object\<close>) and the
  accessor \<^verbatim>\<open>__proto__\<close>, which yields \<^verbatim>\<open>Object.prototype\<close>.\<close>

definition objectPrototype :: "string \<rightharpoonup> jsval" where
  "objectPrototype = map_of
    [(''constructor'', JFun ''Object''),
     (''__defineGetter__'', JFun ''__defineGetter__''),
     (''__defineSetter__'', JFun ''__defineSetter__''),
     (''hasOwnProperty'', JFun ''hasOwnProperty''),
     (''__lookupGetter__'', JFun ''__lookupGetter__''),
     (''__lookupSetter__'', JFun ''__lookupSetter__''),
     (''isPrototypeOf'', JFun ''isPrototypeOf''),
     (''propertyIsEnumerable'', JFun ''propertyIsEnumerable''),
     (''toString'', JFun ''toString''),
     (''valueOf'', JFun ''valueOf''),
     (''__proto__'', JProto),
     (''toLocaleString'', JFun ''toLocaleString'')]"

text \<open>\<^verbatim>\<open>COLORS[key]\<close>.\<close>

definition COLORS_get :: "string \<Rightarrow> jsval" where
  "COLORS_get key =
     (case COLORS key of
        Some hex \<Rightarrow> JStr hex
      | None \<Rightarrow> (case objectPrototype key of Some b \<Rightarrow> b | None \<Rightarrow> JUndefined))"

text \<open>\<^verbatim>\<open>function getColor(color) { return COLORS[color] || color || COLORS.red; }\<close>\<close>

definition getColor :: "(real \<Rightarrow> string) \<Rightarrow> jsval \<Rightarrow> jsval" where
  "getColor ns color =
     (let v = COLORS_get (toStr ns color) in
      if truthy v then v
      else if truthy color then color
      else COLORS_get ''red'')"

text \<open>\<^verbatim>\<open>const THEMES = { documentation: { marker: {...}, ... }, ... }\<close>: for a theme name, the
  table from annotation type to default fields. Only own properties are listed. A theme
  name or a type that names a member of \<^verbatim>\<open>Object.prototype\<close> reaches a built-in object in
  the source; such an object has no property named like a dispatched annotation type and
  spreads to no fields, so it never changes a descriptor that \<^verbatim>\<open>buildSvg\<close> compiles.\<close>

definition THEMES :: "string \<rightharpoonup> (string \<rightharpoonup> obj)" where
  "THEMES = map_of
    [(''documentation'', map_of
        [(''marker'', map_of [(''color'', JStr ''primary''), (''size'', JNum 28)]),
         (''arrow'', map_of [(''color'', JStr ''primary''), (''strokeWidth'', JNum 3)]),
         (''label'', map_of [(''color'', JStr ''primary''), (''fontSize'', JNum 18),
                             (''background'', JStr ''white'')]),
         (''callout'', map_of [(''color'', JStr ''primary''), (''background'', JStr ''white'')])]),
     (''tutorial'', map_of
        [(''marker'', map_of [(''color'', JStr ''green''), (''size'', JNum 32)]),
         (''arrow'', map_of [(''color'', JStr ''green''), (''strokeWidth'', JNum 4)]),
         (''label'', map_of [(''color'', JStr ''darkGray''), (''fontSize'', JNum 20),
                             (''background'', JStr ''lightGray'')]),
         (''callout'', map_of [(''color'', JStr ''green''), (''background'', JStr ''white'')])]),
     (''bugReport'', map_of
        [(''marker'', map_of [(''color'', JStr ''error''), (''size'', JNum 28)]),
         (''arrow'', map_of [(''color'', JStr ''error''), (''strokeWidth'', JNum 3)]),
         (''label'', map_of [(''color'', JStr ''error''), (''fontSize'', JNum 18),
                             (''background'', JStr ''white'')]),
         (''callout'', map_of [(''color'', JStr ''error''), (''background'', JStr ''white'')])]),
     (''highlight'', map_of
        [(''marker'', map_of [(''color'', JStr ''warning''), (''size'', JNum 28)]),
         (''arrow'', map_of [(''color'', JStr ''warning''), (''strokeWidth'', JNum 3)]),
         (''label'', map_of [(''color'', JStr ''darkGray''), (''fontSize'', JNum 18),
                             (''background'', JStr ''yellow'')]),
         (''callout'', map_of [(''color'', JStr ''warning''), (''background'', JStr ''yellow'')])])]"

section \<open>Text escaping\<close>

text \<open>\<^verbatim>\<open>text.replace(/c/g, rep)\<close> for a one-character pattern.\<close>

fun replaceAll :: "char \<Rightarrow> string \<Rightarrow> string \<Rightarrow> string" where
  "replaceAll c rep [] = []"
| "replaceAll c rep (x # xs) = (if x = c then rep @ replaceAll c rep xs else x # replaceAll c rep xs)"

text \<open>\<^verbatim>\<open>escapeXml\<close> on a string: the five replacements in the order of the source.\<close>

definition escapeXmlStr :: "string \<Rightarrow> string" where
  \<open>escapeXmlStr text =
     replaceAll (CHR 0x27) ''&apos;''
       (replaceAll (CHR 0x22) ''&quot;''
         (replaceAll (CHR ''>'') ''&gt;''
           (replaceAll (CHR ''<'') ''&lt;''
             (replaceAll (CHR ''&'') ''&amp;'' text))))\<close>

text \<open>\<^verbatim>\<open>escapeXml(text)\<close>: a value that is not a string is converted and returned as it is.\<close>

definition escapeXml :: "(real \<Rightarrow> string) \<Rightarrow> jsval \<Rightarrow> string" where
  "escapeXml ns text = (case text of JStr s \<Rightarrow> escapeXmlStr s | v \<Rightarrow> toStr ns v)"

section \<open>Identifiers and shared definitions\<close>

text \<open>\<^verbatim>\<open>let idCounter = 0; function generateId(prefix = 'ann') { return `${prefix}-${++idCounter}`; }\<close>
  The process-wide counter is passed in and returned.\<close>

definition generateId :: "string \<Rightarrow> nat \<Rightarrow> string \<times> nat" where
  \<open>generateId pfx idCounter =
     (pfx @ ''-'' @ natStr (Suc idCounter), Suc idCounter)\<close>

text \<open>\<^verbatim>\<open>createDropShadow(id, blur = 4, opacity = 0.3)\<close>; every caller passes a string
  identifier and numeric constants.\<close>

definition createDropShadow :: "(real \<Rightarrow> string) \<Rightarrow> string \<Rightarrow> real \<Rightarrow> real \<Rightarrow> string" where
  \<open>createDropShadow ns ident blur opacity =
     (''\<newline>    <filter id="'' @ ident @
          ''" x="-50%" y="-50%" width="200%" height="200%">'' @
          ''\<newline>      <feDropShadow dx="2" dy="2" stdDeviation="'' @ ns blur @
          ''" flood-opacity="'' @ ns opacity @ ''"/>'' @ ''\<newline>    </filter>'' @
          ''\<newline>  '')\<close>

text \<open>The fragment a shape compiler returns: \<^verbatim>\<open>{ defs, element }\<close>.\<close>

record fragment =
  defs :: string
  element :: string

text \<open>A number in an arithmetic position.\<close>

fun num :: "jsval \<Rightarrow> real option" where
  "num (JNum r) = Some r"
| "num v = None"

text \<open>Array destructuring \<^verbatim>\<open>const [x1, y1] = from\<close>: the first two items of an array or of
  a string, \<^verbatim>\<open>undefined\<close> where there are fewer; any other value is not iterable and the
  runtime throws.\<close>

definition itemOrUndefined :: "jsval list \<Rightarrow> nat \<Rightarrow> jsval" where
  "itemOrUndefined xs i = (if i < length xs then xs ! i else JUndefined)"

definition destructure2 :: "jsval \<Rightarrow> error + (jsval \<times> jsval)" where
  "destructure2 v =
     (case v of
        JArr xs \<Rightarrow> Inr (itemOrUndefined xs 0, itemOrUndefined xs 1)
      | JStr s \<Rightarrow> Inr (itemOrUndefined (map (\<lambda>ch. JStr [ch]) s) 0,
                       itemOrUndefined (map (\<lambda>ch. JStr [ch]) s) 1)
      | _ \<Rightarrow> Inl TypeError)"

section \<open>Colour adjustment\<close>

text \<open>\<^verbatim>\<open>hex.replace('#', '')\<close> removes the first occurrence.\<close>

fun removeFirst :: "char \<Rightarrow> string \<Rightarrow> string" where
  "removeFirst c [] = []"
| "removeFirst c (x # xs) = (if x = c then xs else x # removeFirst c xs)"

definition hexDigitVal :: "char \<Rightarrow> nat option" where
  "hexDigitVal ch =
     (let n = (of_char ch :: nat) in
      if 48 \<le> n \<and> n \<le> 57 then Some (n - 48)
      else if 97 \<le> n \<and> n \<le> 102 then Some (n - 87)
      else if 65 \<le> n \<and> n \<le> 70 then Some (n - 55)
      else None)"

text \<open>The white space that \<^verbatim>\<open>parseInt\<close> skips, among the code units below 256: tab, line
  feed, vertical tab, form feed, carriage return, space and the no-break space. (The
  white space characters above U+00FF have no \<open>char\<close>.)\<close>

definition isWhiteSpace :: "char \<Rightarrow> bool" where
  "isWhiteSpace ch = ((of_char ch :: nat) \<in> {9, 10, 11, 12, 13, 32, 160})"

text \<open>The part of the string that \<^verbatim>\<open>parseInt(s, 16)\<close> reads as digits: leading white space,
  one sign and one \<^verbatim>\<open>0x\<close> prefix are skipped, then the longest run of hexadecimal digits is
  taken.\<close>

definition stripSign :: "string \<Rightarrow> bool \<times> string" where
  "stripSign s =
     (case s of
        [] \<Rightarrow> (False, [])
      | ch # rest \<Rightarrow> if ch = CHR ''-'' then (True, rest)
                     else if ch = CHR ''+'' then (False, rest)
                     else (False, s))"

definition stripPrefix0x :: "string \<Rightarrow> string" where
  "stripPrefix0x s =
     (case s of
        a # b # rest \<Rightarrow> if a = CHR ''0'' \<and> (b = CHR ''x'' \<or> b = CHR ''X'') then rest else s
      | _ \<Rightarrow> s)"

definition hexRun :: "string \<Rightarrow> bool \<times> string" where
  "hexRun s =
     (let (negative, s1) = stripSign (dropWhile isWhiteSpace s)
      in (negative, takeWhile (\<lambda>ch. hexDigitVal ch \<noteq> None) (stripPrefix0x s1)))"

definition hexValue :: "string \<Rightarrow> nat" where
  "hexValue ds = foldl (\<lambda>acc ch. 16 * acc + (case hexDigitVal ch of Some d \<Rightarrow> d | None \<Rightarrow> 0)) 0 ds"

text \<open>\<^verbatim>\<open>parseInt(s, 16)\<close>: \<open>None\<close> is \<^verbatim>\<open>NaN\<close>.\<close>

definition parseInt16 :: "string \<Rightarrow> int option" where
  "parseInt16 s =
     (let (negative, ds) = hexRun s
      in if ds = [] then None
         else Some (if negative then - int (hexValue ds) else int (hexValue ds)))"

text \<open>The conversion to a signed 32-bit integer that \<^verbatim>\<open>>>\<close> and \<^verbatim>\<open>&\<close> apply to their
  operands.\<close>

definition toInt32 :: "int \<Rightarrow> int" where
  "toInt32 n = (n + 2 ^ 31) mod 2 ^ 32 - 2 ^ 31"

definition padStart :: "nat \<Rightarrow> char \<Rightarrow> string \<Rightarrow> string" where
  "padStart n ch s = replicate (n - length s) ch @ s"

text \<open>
  \<^verbatim>\<open>function adjustColor(hex, amount) {
    const num = parseInt(hex.replace('#', ''), 16);
    const r = Math.min(255, Math.max(0, (num >> 16) + amount));
    const g = Math.min(255, Math.max(0, ((num >> 8) & 0x00FF) + amount));
    const b = Math.min(255, Math.max(0, (num & 0x0000FF) + amount));
    return `#${((r << 16) | (g << 8) | b).toString(16).padStart(6, '0')}`;
  }\<close>
  A value that is not a string has no \<^verbatim>\<open>replace\<close> method: the call throws. \<^verbatim>\<open>NaN\<close> converts
  to 0 under \<^verbatim>\<open>>>\<close> and \<^verbatim>\<open>&\<close>. A run of more than 13 hexadecimal digits exceeds the integers
  a double holds exactly and is not followed.\<close>

definition adjustColor :: "jsval \<Rightarrow> int \<Rightarrow> error + string" where
  \<open>adjustColor hex amount =
     (case hex of
        JStr s \<Rightarrow>
          (let str = removeFirst (CHR ''#'') s
           in if 13 < length (snd (hexRun str)) then Inl Unmodelled
              else
                (let n = (case parseInt16 str of None \<Rightarrow> 0 | Some v \<Rightarrow> toInt32 v);
                     r = min 255 (max 0 (n div 65536 + amount));
                     g = min 255 (max 0 ((n div 256) mod 256 + amount));
                     b = min 255 (max 0 (n mod 256 + amount))
                 in Inr (''#'' @ padStart 6 (CHR ''0'') (hexStr (nat (r * 65536 + g * 256 + b))))))
      | _ \<Rightarrow> Inl TypeError)\<close>


section \<open>Shape compilers\<close>

text \<open>Each compiler takes the number formatter, the (merged) descriptor and the id
  counter, and returns the fragment with the new counter, or an error. The fields are
  read as the destructuring parameter of the source reads them, with its defaults.\<close>

subsection \<open>Marker\<close>

text \<open>\<^verbatim>\<open>const isMultiDigit = number > 9; const width = isMultiDigit ? size * 1.6 : size * 2;\<close>\<close>

definition badgeWidth :: "real \<Rightarrow> real \<Rightarrow> real" where
  "badgeWidth numberN sizeN =
     (let isMultiDigit = numberN > 9 in if isMultiDigit then sizeN * 1.6 else sizeN * 2)"

text \<open>The element of the badge style:
  \<^verbatim>\<open>const height = size * 2;\<close> and the \<^verbatim>\<open>rect\<close> and \<^verbatim>\<open>text\<close> pushed to \<^verbatim>\<open>elements\<close>.\<close>

definition badgeElement ::
  "(real \<Rightarrow> string) \<Rightarrow> jsval \<Rightarrow> jsval \<Rightarrow> real \<Rightarrow> real \<Rightarrow> real \<Rightarrow> real \<Rightarrow> string \<Rightarrow> string \<Rightarrow> string" where
  \<open>badgeElement ns x number xN yN sizeN numberN gradientId filterAttr =
     (let width = badgeWidth numberN sizeN;
          height = sizeN * 2
      in ''\<newline>      <rect x="'' @ ns (xN - width / 2) @ ''" y="'' @
          ns (yN - height / 2) @ ''" width="'' @ ns width @ ''" height="'' @ ns height @
          ''"'' @ ''\<newline>            rx="'' @ ns (height / 2) @ ''" fill="url(#'' @
          gradientId @ '')" '' @ filterAttr @ ''/>'' @ ''\<newline>      <text x="'' @
          toStr ns x @ ''" y="'' @ ns (yN + sizeN * 0.35) @
          ''" text-anchor="middle" fill="white"'' @
          ''\<newline>            font-size="'' @ ns (sizeN * 0.9) @
          ''" font-weight="bold" font-family="Arial, Helvetica, sans-serif">'' @
          toStr ns number @ ''</text>'' @ ''\<newline>    '')\<close>

definition createMarker :: "(real \<Rightarrow> string) \<Rightarrow> obj \<Rightarrow> nat \<Rightarrow> error + (fragment \<times> nat)" where
  \<open>createMarker ns a idCounter =
     (let x = field a ''x''; y = field a ''y''; number = field a ''number'';
          color = fieldDefault a ''color'' (JStr ''red'');
          size = fieldDefault a ''size'' (JNum 28);
          shadow = fieldDefault a ''shadow'' (JBool True);
          style = fieldDefault a ''style'' (JStr ''filled'');
          c = getColor ns color;
          (ident, idCounter') = generateId ''marker'' idCounter;
          shadowDefs = (if truthy shadow
                        then [createDropShadow ns (ident @ ''-shadow'') 4 0.3] else []);
          gradientId = ident @ ''-gradient''
      in case adjustColor c (- 30) of
           Inl e \<Rightarrow> Inl e
         | Inr darker \<Rightarrow>
             (let defsArr = shadowDefs @
                    [''\<newline>    <linearGradient id="'' @ gradientId @
                    ''" x1="0%" y1="0%" x2="0%" y2="100%">'' @
                    ''\<newline>      <stop offset="0%" style="stop-color:'' @ toStr ns c @
                    '';stop-opacity:1" />'' @
                    ''\<newline>      <stop offset="100%" style="stop-color:'' @ darker @
                    '';stop-opacity:1" />'' @ ''\<newline>    </linearGradient>'' @
                    ''\<newline>  ''];
                  filterAttr = (if truthy shadow then ''filter="url(#'' @ ident @ ''-shadow)"'' else [])
              in if style = JStr ''filled'' then
                   (case (num y, num size) of
                      (Some yN, Some sizeN) \<Rightarrow>
                        Inr (\<lparr>defs = join ''\<newline>'' defsArr, element = join ''\<newline>''
                   [''\<newline>      <circle cx="'' @ toStr ns x @ ''" cy="'' @ toStr ns y @
                    ''" r="'' @ toStr ns size @ ''" fill="url(#'' @ gradientId @ '')" '' @
                    filterAttr @ ''/>'' @ ''\<newline>      <circle cx="'' @ toStr ns x @
                    ''" cy="'' @ toStr ns y @ ''" r="'' @ ns (sizeN - 2) @
                    ''" fill="none" stroke="rgba(255,255,255,0.3)" stroke-width="2"/>'' @
                    ''\<newline>      <text x="'' @ toStr ns x @ ''" y="'' @
                    ns (yN + sizeN * 0.35) @ ''" text-anchor="middle" fill="white"'' @
                    ''\<newline>            font-size="'' @ ns (sizeN * 0.9) @
                    ''" font-weight="bold" font-family="Arial, Helvetica, sans-serif">'' @
                    toStr ns number @ ''</text>'' @ ''\<newline>    '']\<rparr>, idCounter')
                    | _ \<Rightarrow> Inl Unmodelled)
                 else if style = JStr ''outline'' then
                   (case (num y, num size) of
                      (Some yN, Some sizeN) \<Rightarrow>
                        Inr (\<lparr>defs = join ''\<newline>'' defsArr, element = join ''\<newline>''
                   [''\<newline>      <circle cx="'' @ toStr ns x @ ''" cy="'' @ toStr ns y @
                    ''" r="'' @ toStr ns size @ ''" fill="white" stroke="'' @ toStr ns c @
                    ''" stroke-width="3" '' @ filterAttr @ ''/>'' @ ''\<newline>      <text x="'' @
                    toStr ns x @ ''" y="'' @ ns (yN + sizeN * 0.35) @
                    ''" text-anchor="middle" fill="'' @ toStr ns c @ ''"'' @
                    ''\<newline>            font-size="'' @ ns (sizeN * 0.9) @
                    ''" font-weight="bold" font-family="Arial, Helvetica, sans-serif">'' @
                    toStr ns number @ ''</text>'' @ ''\<newline>    '']\<rparr>, idCounter')
                    | _ \<Rightarrow> Inl Unmodelled)
                 else if style = JStr ''badge'' then
                   (case (num x, num y, num size, num number) of
                      (Some xN, Some yN, Some sizeN, Some numberN) \<Rightarrow>
                        Inr (\<lparr>defs = join ''\<newline>'' defsArr, element = join ''\<newline>''
                   [badgeElement ns x number xN yN sizeN numberN gradientId filterAttr]\<rparr>, idCounter')
                    | _ \<Rightarrow> Inl Unmodelled)
                 else Inr (\<lparr>defs = join ''\<newline>'' defsArr, element = join ''\<newline>'' []\<rparr>, idCounter')))\<close>


subsection \<open>Arrow\<close>

definition createArrow :: "(real \<Rightarrow> string) \<Rightarrow> obj \<Rightarrow> nat \<Rightarrow> error + (fragment \<times> nat)" where
  \<open>createArrow ns a idCounter =
     (let color = fieldDefault a ''color'' (JStr ''red'');
          strokeWidth = fieldDefault a ''strokeWidth'' (JNum 3);
          style = fieldDefault a ''style'' (JStr ''solid'');
          headStyle = fieldDefault a ''headStyle'' (JStr ''filled'');
          shadow = fieldDefault a ''shadow'' (JBool True);
          c = getColor ns color
      in case destructure2 (field a ''from'') of
           Inl e \<Rightarrow> Inl e
         | Inr (x1, y1) \<Rightarrow>
        (case destructure2 (field a ''to'') of
           Inl e \<Rightarrow> Inl e
         | Inr (x2, y2) \<Rightarrow>
        (case num strokeWidth of
           None \<Rightarrow> Inl Unmodelled
         | Some strokeWidthN \<Rightarrow>
             (let (ident, idCounter') = generateId ''arrow'' idCounter;
                  shadowDefs = (if truthy shadow
                                then [createDropShadow ns (ident @ ''-shadow'') 2 0.2] else []);
                  headSize = max 10 (strokeWidthN * 3);
                  headDefs =
                    (if headStyle = JStr ''filled'' then
                   [''\<newline>      <marker id="'' @ ident @ ''-head" markerWidth="'' @
                    ns headSize @ ''" markerHeight="'' @ ns (headSize * 0.7) @ ''"'' @
                    ''\<newline>              refX="'' @ ns (headSize - 1) @ ''" refY="'' @
                    ns (headSize * 0.35) @ ''" orient="auto" markerUnits="userSpaceOnUse">'' @
                    ''\<newline>        <polygon points="0 0, '' @ ns headSize @ '' '' @
                    ns (headSize * 0.35) @ '', 0 '' @ ns (headSize * 0.7) @ ''" fill="'' @
                    toStr ns c @ ''"/>'' @ ''\<newline>      </marker>'' @ ''\<newline>    '']
                     else if headStyle = JStr ''open'' then
                   [''\<newline>      <marker id="'' @ ident @ ''-head" markerWidth="'' @
                    ns headSize @ ''" markerHeight="'' @ ns (headSize * 0.7) @ ''"'' @
                    ''\<newline>              refX="'' @ ns (headSize - 1) @ ''" refY="'' @
                    ns (headSize * 0.35) @ ''" orient="auto" markerUnits="userSpaceOnUse">'' @
                    ''\<newline>        <polyline points="0 0, '' @ ns headSize @ '' '' @
                    ns (headSize * 0.35) @ '', 0 '' @ ns (headSize * 0.7) @ ''"'' @
                    ''\<newline>                  fill="none" stroke="'' @ toStr ns c @
                    ''" stroke-width="2" stroke-linejoin="round"/>'' @
                    ''\<newline>      </marker>'' @ ''\<newline>    '']
                     else []);
                  dashArray = (if style = JStr ''dashed'' then ''stroke-dasharray="10,5"'' else []);
                  filterAttr = (if truthy shadow then ''filter="url(#'' @ ident @ ''-shadow)"'' else [])
              in Inr (\<lparr>defs = join ''\<newline>'' (shadowDefs @ headDefs), element =
                    ''\<newline>    <line x1="'' @ toStr ns x1 @ ''" y1="'' @ toStr ns y1 @
                    ''" x2="'' @ toStr ns x2 @ ''" y2="'' @ toStr ns y2 @ ''"'' @
                    ''\<newline>          stroke="'' @ toStr ns c @ ''" stroke-width="'' @
                    toStr ns strokeWidth @ ''" stroke-linecap="round"'' @
                    ''\<newline>          marker-end="url(#'' @ ident @ ''-head)" '' @ dashArray @
                    '' '' @ filterAttr @ ''/>'' @ ''\<newline>  ''\<rparr>, idCounter')))))\<close>

subsection \<open>Curved arrow\<close>

text \<open>The control point of the quadratic curve:
  \<^verbatim>\<open>const midX = (x1 + x2) / 2; const midY = (y1 + y2) / 2;
  const dx = x2 - x1; const dy = y2 - y1;
  const len = Math.sqrt(dx * dx + dy * dy) || 1;
  const nx = -dy / len; const ny = dx / len;
  const cx = midX + nx * curve; const cy = midY + ny * curve;\<close>\<close>

definition segmentLength :: "real \<Rightarrow> real \<Rightarrow> real" where
  "segmentLength dx dy = (let l = sqrt (dx * dx + dy * dy) in if l \<noteq> 0 then l else 1)"

definition controlPoint :: "real \<Rightarrow> real \<Rightarrow> real \<Rightarrow> real \<Rightarrow> real \<Rightarrow> real \<times> real" where
  "controlPoint x1 y1 x2 y2 curve =
     (let midX = (x1 + x2) / 2; midY = (y1 + y2) / 2;
          dx = x2 - x1; dy = y2 - y1;
          len = segmentLength dx dy;
          nx = - dy / len; ny = dx / len
      in (midX + nx * curve, midY + ny * curve))"

definition createCurvedArrow :: "(real \<Rightarrow> string) \<Rightarrow> obj \<Rightarrow> nat \<Rightarrow> error + (fragment \<times> nat)" where
  \<open>createCurvedArrow ns a idCounter =
     (let curve = fieldDefault a ''curve'' (JNum 50);
          color = fieldDefault a ''color'' (JStr ''red'');
          strokeWidth = fieldDefault a ''strokeWidth'' (JNum 3);
          shadow = fieldDefault a ''shadow'' (JBool True);
          c = getColor ns color
      in case destructure2 (field a ''from'') of
           Inl e \<Rightarrow> Inl e
         | Inr (x1, y1) \<Rightarrow>
        (case destructure2 (field a ''to'') of
           Inl e \<Rightarrow> Inl e
         | Inr (x2, y2) \<Rightarrow>
        (case (num x1, num y1, num x2, num y2, num curve, num strokeWidth) of
           (Some x1N, Some y1N, Some x2N, Some y2N, Some curveN, Some strokeWidthN) \<Rightarrow>
             (let (ident, idCounter') = generateId ''curved-arrow'' idCounter;
                  ctrl = controlPoint x1N y1N x2N y2N curveN;
                  shadowDefs = (if truthy shadow
                                then [createDropShadow ns (ident @ ''-shadow'') 2 0.2] else []);
                  headSize = max 10 (strokeWidthN * 3);
                  headDefs =
                   [''\<newline>    <marker id="'' @ ident @ ''-head" markerWidth="'' @
                    ns headSize @ ''" markerHeight="'' @ ns (headSize * 0.7) @ ''"'' @
                    ''\<newline>            refX="'' @ ns (headSize - 1) @ ''" refY="'' @
                    ns (headSize * 0.35) @ ''" orient="auto" markerUnits="userSpaceOnUse">'' @
                    ''\<newline>      <polygon points="0 0, '' @ ns headSize @ '' '' @
                    ns (headSize * 0.35) @ '', 0 '' @ ns (headSize * 0.7) @ ''" fill="'' @
                    toStr ns c @ ''"/>'' @ ''\<newline>    </marker>'' @ ''\<newline>  ''];
                  filterAttr = (if truthy shadow then ''filter="url(#'' @ ident @ ''-shadow)"'' else [])
              in Inr (\<lparr>defs = join ''\<newline>'' (shadowDefs @ headDefs), element =
                    ''\<newline>    <path d="M'' @ toStr ns x1 @ '','' @ toStr ns y1 @ '' Q'' @
                    ns (fst ctrl) @ '','' @ ns (snd ctrl) @ '' '' @ toStr ns x2 @ '','' @
                    toStr ns y2 @ ''"'' @ ''\<newline>          fill="none" stroke="'' @
                    toStr ns c @ ''" stroke-width="'' @ toStr ns strokeWidth @
                    ''" stroke-linecap="round"'' @ ''\<newline>          marker-end="url(#'' @
                    ident @ ''-head)" '' @ filterAttr @ ''/>'' @ ''\<newline>  ''\<rparr>, idCounter'))
         | _ \<Rightarrow> Inl Unmodelled)))\<close>


subsection \<open>Callout\<close>

text \<open>\<^verbatim>\<open>text.split('\n')\<close>: the pieces between separators; never the empty list.\<close>

fun split :: "char \<Rightarrow> string \<Rightarrow> string list" where
  "split sep [] = [[]]"
| "split sep (ch # rest) =
     (if ch = sep then [] # split sep rest
      else (case split sep rest of [] \<Rightarrow> [[ch]] | piece # pieces \<Rightarrow> (ch # piece) # pieces))"

text \<open>\<^verbatim>\<open>Math.max(...values)\<close> on a list of numbers. The source calls it on one value per line
  of text, so the list is not empty (of no value, the source would give \<^verbatim>\<open>-Infinity\<close>).\<close>

fun maximum :: "real list \<Rightarrow> real" where
  "maximum [] = 0"
| "maximum [v] = v"
| "maximum (v # w # ws) = max v (maximum (w # ws))"

text \<open>The four pointer directions of the \<^verbatim>\<open>switch (pointer)\<close>, and its default: the box
  position and the path of the tail.\<close>

definition calloutPointer ::
  "(real \<Rightarrow> string) \<Rightarrow> jsval \<Rightarrow> real \<Rightarrow> real \<Rightarrow> real \<Rightarrow> real \<Rightarrow> real \<times> real \<times> string" where
  \<open>calloutPointer ns pointer xN yN textWidth textHeight =
     (let pointerSize = 12 in
      if pointer = JStr ''top'' then
        (xN - textWidth / 2, yN + pointerSize,
         ''M'' @ ns (xN - pointerSize) @ '','' @ ns (yN + pointerSize) @ '' L'' @ ns xN @
          '','' @ ns yN @ '' L'' @ ns (xN + pointerSize) @ '','' @ ns (yN + pointerSize))
      else if pointer = JStr ''bottom'' then
        (xN - textWidth / 2, yN - textHeight - pointerSize,
         ''M'' @ ns (xN - pointerSize) @ '','' @ ns (yN - pointerSize) @ '' L'' @ ns xN @
          '','' @ ns yN @ '' L'' @ ns (xN + pointerSize) @ '','' @ ns (yN - pointerSize))
      else if pointer = JStr ''left'' then
        (xN + pointerSize, yN - textHeight / 2,
         ''M'' @ ns (xN + pointerSize) @ '','' @ ns (yN - pointerSize) @ '' L'' @ ns xN @
          '','' @ ns yN @ '' L'' @ ns (xN + pointerSize) @ '','' @ ns (yN + pointerSize))
      else if pointer = JStr ''right'' then
        (xN - textWidth - pointerSize, yN - textHeight / 2,
         ''M'' @ ns (xN - pointerSize) @ '','' @ ns (yN - pointerSize) @ '' L'' @ ns xN @
          '','' @ ns yN @ '' L'' @ ns (xN - pointerSize) @ '','' @ ns (yN + pointerSize))
      else (xN, yN, []))\<close>

text \<open>\<^verbatim>\<open>lines.map((line, i) => `<tspan ...>${escapeXml(line)}</tspan>`)\<close>, the index counted
  from \<open>i\<close>.\<close>

fun tspans :: "(real \<Rightarrow> string) \<Rightarrow> real \<Rightarrow> real \<Rightarrow> real \<Rightarrow> nat \<Rightarrow> string list \<Rightarrow> string list" where
  \<open>tspans ns boxX padding lineHeight i [] = []\<close>
| \<open>tspans ns boxX padding lineHeight i (line # lines) =
     (''<tspan x="'' @ ns (boxX + padding) @ ''" dy="'' @ ns (if i = 0 then 0 else lineHeight) @
          ''">'' @ escapeXml ns (JStr line) @ ''</tspan>'')
     # tspans ns boxX padding lineHeight (Suc i) lines\<close>

text \<open>The element of a callout: the box, the tail when there is a path for it, and the
  text node with one \<^verbatim>\<open>tspan\<close> per line.\<close>

definition calloutElement ::
  "(real \<Rightarrow> string) \<Rightarrow> string \<Rightarrow> real \<Rightarrow> real \<Rightarrow> real \<Rightarrow> real \<Rightarrow> jsval \<Rightarrow> jsval \<Rightarrow> string \<Rightarrow> real \<Rightarrow> real
     \<Rightarrow> jsval \<Rightarrow> string \<Rightarrow> string" where
  \<open>calloutElement ns filterAttr boxX boxY textWidth textHeight bgColor borderColor pointerPath
       padding fontSizeN fontSize textElements =
     (''\<newline>    <g '' @ filterAttr @ ''>'' @ ''\<newline>      <rect x="'' @
      ns boxX @ ''" y="'' @ ns boxY @ ''" width="'' @ ns textWidth @ ''" height="'' @
      ns textHeight @ ''"'' @ ''\<newline>            rx="6" fill="'' @
      toStr ns bgColor @ ''" stroke="'' @ toStr ns borderColor @
      ''" stroke-width="2"/>'' @ ''\<newline>      '' @
      (if pointerPath \<noteq> []
      then ''<path d="'' @ pointerPath @ ''" fill="'' @ toStr ns bgColor @
      ''" stroke="'' @ toStr ns borderColor @ ''" stroke-width="2"/>''
      else []) @
      ''\<newline>      <text x="'' @ ns (boxX + padding) @ ''" y="'' @
      ns (boxY + padding + fontSizeN) @ ''"'' @ ''\<newline>            fill="'' @
      toStr ns (getColor ns (JStr ''darkGray'')) @ ''" font-size="'' @
      toStr ns fontSize @ ''" font-family="Arial, Helvetica, sans-serif">'' @
      ''\<newline>        '' @ textElements @ ''\<newline>      </text>'' @
      ''\<newline>    </g>'' @ ''\<newline>  '')\<close>

definition createCallout :: "(real \<Rightarrow> string) \<Rightarrow> obj \<Rightarrow> nat \<Rightarrow> error + (fragment \<times> nat)" where
  \<open>createCallout ns a idCounter =
     (let x = field a ''x''; y = field a ''y''; text = field a ''text'';
          color = fieldDefault a ''color'' (JStr ''primary'');
          background = fieldDefault a ''background'' (JStr ''white'');
          width = fieldDefault a ''width'' JNull;
          pointer = fieldDefault a ''pointer'' (JStr ''bottom'');
          fontSize = fieldDefault a ''fontSize'' (JNum 16);
          shadow = fieldDefault a ''shadow'' (JBool True);
          borderColor = getColor ns color;
          bgColor = getColor ns background;
          (ident, idCounter') = generateId ''callout'' idCounter
      in case text of
           JStr textS \<Rightarrow>
             (case (num x, num y, num fontSize, if truthy width then num width else Some 0) of
                (Some xN, Some yN, Some fontSizeN, Some widthN) \<Rightarrow>
                  (let padding = 12;
                       lineHeight = fontSizeN * 1.4;
                       lines = split (CHR 0x0A) textS;
                       textWidth = (if truthy width then widthN
                                    else maximum (map (\<lambda>l. real (length l) * fontSizeN * 0.6) lines)
                                         + padding * 2);
                       textHeight = real (length lines) * lineHeight + padding * 2;
                       shadowDefs = (if truthy shadow
                                     then [createDropShadow ns (ident @ ''-shadow'') 4 0.15] else []);
                       filterAttr = (if truthy shadow then ''filter="url(#'' @ ident @ ''-shadow)"''
                                     else []);
                       (boxX, boxY, pointerPath) = calloutPointer ns pointer xN yN textWidth textHeight;
                       textElements = join [] (tspans ns boxX padding lineHeight 0 lines)
                   in Inr (\<lparr>defs = join ''\<newline>'' shadowDefs, element =
                        calloutElement ns filterAttr boxX boxY textWidth textHeight bgColor borderColor
                          pointerPath padding fontSizeN fontSize textElements\<rparr>, idCounter'))
              | _ \<Rightarrow> Inl Unmodelled)
         | _ \<Rightarrow> Inl TypeError)\<close>


subsection \<open>Rectangle and circle\<close>

definition createRect :: "(real \<Rightarrow> string) \<Rightarrow> obj \<Rightarrow> nat \<Rightarrow> error + (fragment \<times> nat)" where
  \<open>createRect ns a idCounter =
     (let x = field a ''x''; y = field a ''y'';
          width = field a ''width''; height = field a ''height'';
          color = fieldDefault a ''color'' (JStr ''red'');
          strokeWidth = fieldDefault a ''strokeWidth'' (JNum 3);
          fill = fieldDefault a ''fill'' (JStr ''none'');
          cornerRadius = fieldDefault a ''cornerRadius'' (JNum 8);
          style = fieldDefault a ''style'' (JStr ''solid'');
          shadow = fieldDefault a ''shadow'' (JBool False);
          c = getColor ns color;
          fillColor = (if fill = JStr ''none'' then JStr ''none'' else getColor ns fill);
          (ident, idCounter') = generateId ''rect'' idCounter;
          shadowDefs = (if truthy shadow
                        then [createDropShadow ns (ident @ ''-shadow'') 4 0.3] else []);
          dashArray = (if style = JStr ''dashed'' then ''stroke-dasharray="10,5"'' else []);
          filterAttr = (if truthy shadow then ''filter="url(#'' @ ident @ ''-shadow)"'' else [])
      in Inr (\<lparr>defs = join ''\<newline>'' shadowDefs, element =
          ''\<newline>    <rect x="'' @ toStr ns x @ ''" y="'' @ toStr ns y @ ''" width="'' @
          toStr ns width @ ''" height="'' @ toStr ns height @ ''" rx="'' @ toStr ns cornerRadius @
          ''"'' @ ''\<newline>          fill="'' @ toStr ns fillColor @ ''" stroke="'' @
          toStr ns c @ ''" stroke-width="'' @ toStr ns strokeWidth @ ''" '' @ dashArray @ '' '' @
          filterAttr @ ''/>'' @ ''\<newline>  ''\<rparr>, idCounter'))\<close>

definition createCircle :: "(real \<Rightarrow> string) \<Rightarrow> obj \<Rightarrow> nat \<Rightarrow> error + (fragment \<times> nat)" where
  \<open>createCircle ns a idCounter =
     (let x = field a ''x''; y = field a ''y'';
          radius = fieldDefault a ''radius'' (JNum 30);
          color = fieldDefault a ''color'' (JStr ''red'');
          strokeWidth = fieldDefault a ''strokeWidth'' (JNum 3);
          fill = fieldDefault a ''fill'' (JStr ''none'');
          style = fieldDefault a ''style'' (JStr ''solid'');
          shadow = fieldDefault a ''shadow'' (JBool False);
          c = getColor ns color;
          fillColor = (if fill = JStr ''none'' then JStr ''none'' else getColor ns fill);
          (ident, idCounter') = generateId ''circle'' idCounter;
          shadowDefs = (if truthy shadow
                        then [createDropShadow ns (ident @ ''-shadow'') 4 0.3] else []);
          dashArray = (if style = JStr ''dashed'' then ''stroke-dasharray="8,4"'' else []);
          filterAttr = (if truthy shadow then ''filter="url(#'' @ ident @ ''-shadow)"'' else [])
      in Inr (\<lparr>defs = join ''\<newline>'' shadowDefs, element =
          ''\<newline>    <circle cx="'' @ toStr ns x @ ''" cy="'' @ toStr ns y @ ''" r="'' @
          toStr ns radius @ ''"'' @ ''\<newline>            fill="'' @ toStr ns fillColor @
          ''" stroke="'' @ toStr ns c @ ''" stroke-width="'' @ toStr ns strokeWidth @ ''" '' @
          dashArray @ '' '' @ filterAttr @ ''/>'' @ ''\<newline>  ''\<rparr>, idCounter'))\<close>


subsection \<open>Label\<close>

text \<open>\<^verbatim>\<open>text.length\<close> where it is a number: of a string and of an array.\<close>

fun lengthOf :: "jsval \<Rightarrow> nat option" where
  "lengthOf (JStr s) = Some (length s)"
| "lengthOf (JArr xs) = Some (length xs)"
| "lengthOf v = None"

text \<open>The background plate, pushed \<^verbatim>\<open>if (background)\<close>: the only place where the estimated
  text size is used.\<close>

definition labelBackground ::
  "(real \<Rightarrow> string) \<Rightarrow> jsval \<Rightarrow> jsval \<Rightarrow> string \<Rightarrow> real \<Rightarrow> real \<Rightarrow> real \<Rightarrow> real \<Rightarrow> nat \<Rightarrow> string" where
  \<open>labelBackground ns background cornerRadius filterAttr xN yN fontSizeN paddingN len =
     (let textWidth = real len * fontSizeN * 0.6;
          textHeight = fontSizeN * 1.2
      in ''\<newline>      <rect x="'' @ ns (xN - paddingN) @ ''" y="'' @
          ns (yN - textHeight - paddingN + 4) @ ''"'' @ ''\<newline>            width="'' @
          ns (textWidth + paddingN * 2) @ ''" height="'' @ ns (textHeight + paddingN * 2) @ ''"'' @
          ''\<newline>            rx="'' @ toStr ns cornerRadius @ ''" fill="'' @
          toStr ns (getColor ns background) @ ''" '' @ filterAttr @ ''/>'' @ ''\<newline>    '')\<close>

text \<open>The text node, pushed for every label.\<close>

definition labelText ::
  "(real \<Rightarrow> string) \<Rightarrow> jsval \<Rightarrow> jsval \<Rightarrow> jsval \<Rightarrow> jsval \<Rightarrow> jsval \<Rightarrow> jsval \<Rightarrow> string" where
  \<open>labelText ns x y textColor fontSize fontWeight text =
     (''\<newline>    <text x="'' @ toStr ns x @ ''" y="'' @ toStr ns y @ ''" fill="'' @
          toStr ns textColor @ ''" font-size="'' @ toStr ns fontSize @ ''"'' @
          ''\<newline>          font-weight="'' @ toStr ns fontWeight @
          ''" font-family="Arial, Helvetica, sans-serif">'' @ escapeXml ns text @ ''</text>'' @
          ''\<newline>  '')\<close>

definition createLabel :: "(real \<Rightarrow> string) \<Rightarrow> obj \<Rightarrow> nat \<Rightarrow> error + (fragment \<times> nat)" where
  \<open>createLabel ns a idCounter =
     (let x = field a ''x''; y = field a ''y''; text = field a ''text'';
          color = fieldDefault a ''color'' (JStr ''darkGray'');
          fontSize = fieldDefault a ''fontSize'' (JNum 16);
          fontWeight = fieldDefault a ''fontWeight'' (JStr ''bold'');
          background = fieldDefault a ''background'' JNull;
          padding = fieldDefault a ''padding'' (JNum 8);
          cornerRadius = fieldDefault a ''cornerRadius'' (JNum 4);
          shadow = fieldDefault a ''shadow'' (JBool False);
          textColor = getColor ns color;
          (ident, idCounter') = generateId ''label'' idCounter
      in if text = JUndefined \<or> text = JNull then Inl TypeError
         else
           (let shadowDefs = (if truthy shadow \<and> truthy background
                              then [createDropShadow ns (ident @ ''-shadow'') 3 0.15] else []);
                filterAttr = (if truthy shadow \<and> truthy background
                              then ''filter="url(#'' @ ident @ ''-shadow)"'' else []);
                textElement = labelText ns x y textColor fontSize fontWeight text
            in if truthy background then
                 (case (num x, num y, num fontSize, num padding, lengthOf text) of
                    (Some xN, Some yN, Some fontSizeN, Some paddingN, Some len) \<Rightarrow>
                      Inr (\<lparr>defs = join ''\<newline>'' shadowDefs, element = join ''\<newline>''
                             [labelBackground ns background cornerRadius filterAttr xN yN fontSizeN paddingN len,
                              textElement]\<rparr>, idCounter')
                  | _ \<Rightarrow> Inl Unmodelled)
               else Inr (\<lparr>defs = join ''\<newline>'' shadowDefs, element = join ''\<newline>'' [textElement]\<rparr>,
                         idCounter')))\<close>


subsection \<open>Highlight, blur and connector\<close>

definition createHighlight :: "(real \<Rightarrow> string) \<Rightarrow> obj \<Rightarrow> nat \<Rightarrow> error + (fragment \<times> nat)" where
  \<open>createHighlight ns a idCounter =
     (let x = field a ''x''; y = field a ''y'';
          width = field a ''width''; height = field a ''height'';
          color = fieldDefault a ''color'' (JStr ''yellow'');
          opacity = fieldDefault a ''opacity'' (JNum 0.35);
          cornerRadius = fieldDefault a ''cornerRadius'' (JNum 0);
          c = getColor ns color
      in Inr (\<lparr>defs = [], element =
          ''<rect x="'' @ toStr ns x @ ''" y="'' @ toStr ns y @ ''" width="'' @ toStr ns width @
          ''" height="'' @ toStr ns height @ ''" rx="'' @ toStr ns cornerRadius @ ''" fill="'' @
          toStr ns c @ ''" opacity="'' @ toStr ns opacity @ ''"/>''\<rparr>, idCounter))\<close>

definition createBlur :: "(real \<Rightarrow> string) \<Rightarrow> obj \<Rightarrow> nat \<Rightarrow> error + (fragment \<times> nat)" where
  \<open>createBlur ns a idCounter =
     (let x = field a ''x''; y = field a ''y'';
          width = field a ''width''; height = field a ''height'';
          intensity = fieldDefault a ''intensity'' (JNum 8);
          (ident, idCounter') = generateId ''blur'' idCounter
      in Inr (\<lparr>defs =
          ''\<newline>      <filter id="'' @ ident @ ''">'' @
          ''\<newline>        <feGaussianBlur stdDeviation="'' @ toStr ns intensity @ ''"/>'' @
          ''\<newline>      </filter>'' @ ''\<newline>    '', element =
          ''<rect x="'' @ toStr ns x @ ''" y="'' @ toStr ns y @ ''" width="'' @ toStr ns width @
          ''" height="'' @ toStr ns height @ ''" fill="#808080" filter="url(#'' @ ident @ '')"/>''\<rparr>, idCounter'))\<close>

definition createConnector :: "(real \<Rightarrow> string) \<Rightarrow> obj \<Rightarrow> nat \<Rightarrow> error + (fragment \<times> nat)" where
  \<open>createConnector ns a idCounter =
     (let color = fieldDefault a ''color'' (JStr ''gray'');
          strokeWidth = fieldDefault a ''strokeWidth'' (JNum 2);
          style = fieldDefault a ''style'' (JStr ''dashed'');
          c = getColor ns color
      in case destructure2 (field a ''from'') of
           Inl e \<Rightarrow> Inl e
         | Inr (x1, y1) \<Rightarrow>
        (case destructure2 (field a ''to'') of
           Inl e \<Rightarrow> Inl e
         | Inr (x2, y2) \<Rightarrow>
             (let dashArray = (if style = JStr ''dashed'' then ''stroke-dasharray="6,4"'' else [])
              in Inr (\<lparr>defs = [], element =
          ''<line x1="'' @ toStr ns x1 @ ''" y1="'' @ toStr ns y1 @ ''" x2="'' @ toStr ns x2 @
          ''" y2="'' @ toStr ns y2 @ ''" stroke="'' @ toStr ns c @ ''" stroke-width="'' @
          toStr ns strokeWidth @ ''" '' @ dashArray @ ''/>''\<rparr>, idCounter))))\<close>


subsection \<open>Icon\<close>

text \<open>The glyph of the \<^verbatim>\<open>switch (icon)\<close>, for the five glyph names and their aliases.\<close>

definition iconGlyph :: "(real \<Rightarrow> string) \<Rightarrow> jsval \<Rightarrow> real \<Rightarrow> real \<Rightarrow> real \<Rightarrow> string" where
  \<open>iconGlyph ns icon xN yN sizeN =
     (if icon = JStr ''check'' \<or> icon = JStr ''checkmark'' then
        ''<path d="M'' @ ns (xN - sizeN * 0.3) @ '','' @ ns yN @ '' L'' @ ns (xN - sizeN * 0.1) @
          '','' @ ns (yN + sizeN * 0.25) @ '' L'' @ ns (xN + sizeN * 0.35) @ '','' @
          ns (yN - sizeN * 0.25) @ ''"'' @
          ''\<newline>                       fill="none" stroke="white" stroke-width="3" stroke-linecap="round" stroke-linejoin="round"/>''
      else if icon = JStr ''x'' \<or> icon = JStr ''cross'' then
        ''\<newline>        <line x1="'' @ ns (xN - sizeN * 0.2) @ ''" y1="'' @
          ns (yN - sizeN * 0.2) @ ''" x2="'' @ ns (xN + sizeN * 0.2) @ ''" y2="'' @
          ns (yN + sizeN * 0.2) @ ''" stroke="white" stroke-width="3" stroke-linecap="round"/>'' @
          ''\<newline>        <line x1="'' @ ns (xN + sizeN * 0.2) @ ''" y1="'' @
          ns (yN - sizeN * 0.2) @ ''" x2="'' @ ns (xN - sizeN * 0.2) @ ''" y2="'' @
          ns (yN + sizeN * 0.2) @ ''" stroke="white" stroke-width="3" stroke-linecap="round"/>'' @
          ''\<newline>      ''
      else if icon = JStr ''warning'' \<or> icon = JStr ''!'' then
        ''\<newline>        <line x1="'' @ ns xN @ ''" y1="'' @ ns (yN - sizeN * 0.15) @
          ''" x2="'' @ ns xN @ ''" y2="'' @ ns (yN + sizeN * 0.05) @
          ''" stroke="white" stroke-width="3" stroke-linecap="round"/>'' @
          ''\<newline>        <circle cx="'' @ ns xN @ ''" cy="'' @ ns (yN + sizeN * 0.25) @
          ''" r="2" fill="white"/>'' @ ''\<newline>      ''
      else if icon = JStr ''info'' \<or> icon = JStr ''i'' then
        ''\<newline>        <circle cx="'' @ ns xN @ ''" cy="'' @ ns (yN - sizeN * 0.2) @
          ''" r="2" fill="white"/>'' @ ''\<newline>        <line x1="'' @ ns xN @ ''" y1="'' @
          ns (yN - sizeN * 0.05) @ ''" x2="'' @ ns xN @ ''" y2="'' @ ns (yN + sizeN * 0.25) @
          ''" stroke="white" stroke-width="3" stroke-linecap="round"/>'' @ ''\<newline>      ''
      else if icon = JStr ''question'' \<or> icon = JStr ''?'' then
        ''\<newline>        <path d="M'' @ ns (xN - sizeN * 0.15) @ '','' @
          ns (yN - sizeN * 0.25) @ '' Q'' @ ns (xN - sizeN * 0.15) @ '','' @ ns (yN - sizeN * 0.4) @
          '' '' @ ns xN @ '','' @ ns (yN - sizeN * 0.4) @ ''\<newline>                Q'' @
          ns (xN + sizeN * 0.2) @ '','' @ ns (yN - sizeN * 0.4) @ '' '' @ ns (xN + sizeN * 0.2) @
          '','' @ ns (yN - sizeN * 0.2) @ ''\<newline>                Q'' @ ns (xN + sizeN * 0.2) @
          '','' @ ns (yN - sizeN * 0.05) @ '' '' @ ns xN @ '','' @ ns yN @ ''"'' @
          ''\<newline>              fill="none" stroke="white" stroke-width="2.5" stroke-linecap="round"/>'' @
          ''\<newline>        <circle cx="'' @ ns xN @ ''" cy="'' @ ns (yN + sizeN * 0.2) @
          ''" r="2" fill="white"/>'' @ ''\<newline>      ''
      else [])\<close>

definition knownIcon :: "jsval \<Rightarrow> bool" where
  "knownIcon icon =
     (icon = JStr ''check'' \<or> icon = JStr ''checkmark'' \<or> icon = JStr ''x'' \<or> icon = JStr ''cross''
      \<or> icon = JStr ''warning'' \<or> icon = JStr ''!'' \<or> icon = JStr ''info'' \<or> icon = JStr ''i''
      \<or> icon = JStr ''question'' \<or> icon = JStr ''?'')"

definition createIcon :: "(real \<Rightarrow> string) \<Rightarrow> obj \<Rightarrow> nat \<Rightarrow> error + (fragment \<times> nat)" where
  \<open>createIcon ns a idCounter =
     (let x = field a ''x''; y = field a ''y''; icon = field a ''icon'';
          color = fieldDefault a ''color'' (JStr ''green'');
          size = fieldDefault a ''size'' (JNum 24);
          shadow = fieldDefault a ''shadow'' (JBool True);
          c = getColor ns color;
          (ident, idCounter') = generateId ''icon'' idCounter;
          shadowDefs = (if truthy shadow
                        then [createDropShadow ns (ident @ ''-shadow'') 4 0.3] else []);
          filterAttr = (if truthy shadow then ''filter="url(#'' @ ident @ ''-shadow)"'' else [])
      in if knownIcon icon then
           (case (num x, num y, num size) of
              (Some xN, Some yN, Some sizeN) \<Rightarrow>
                (let iconPath = iconGlyph ns icon xN yN sizeN
                 in Inr (\<lparr>defs = join ''\<newline>'' shadowDefs, element =
          ''\<newline>      <g '' @ filterAttr @ ''>'' @ ''\<newline>        <circle cx="'' @
          toStr ns x @ ''" cy="'' @ toStr ns y @ ''" r="'' @ toStr ns size @ ''" fill="'' @
          toStr ns c @ ''"/>'' @ ''\<newline>        '' @ iconPath @ ''\<newline>      </g>'' @
          ''\<newline>    ''\<rparr>, idCounter'))
            | _ \<Rightarrow> Inl Unmodelled)
         else
           (let iconPath = []
            in Inr (\<lparr>defs = join ''\<newline>'' shadowDefs, element =
          ''\<newline>      <g '' @ filterAttr @ ''>'' @ ''\<newline>        <circle cx="'' @
          toStr ns x @ ''" cy="'' @ toStr ns y @ ''" r="'' @ toStr ns size @ ''" fill="'' @
          toStr ns c @ ''"/>'' @ ''\<newline>        '' @ iconPath @ ''\<newline>      </g>'' @
          ''\<newline>    ''\<rparr>, idCounter')))\<close>

section \<open>Document assembly\<close>

text \<open>\<^verbatim>\<open>const themeDefaults = theme ? THEMES[theme] : null;\<close> The theme is a name or absent
  (\<^verbatim>\<open>null\<close>, the default of the parameter).\<close>

definition themeDefaults :: "string option \<Rightarrow> (string \<rightharpoonup> obj) option" where
  "themeDefaults theme =
     (case theme of
        None \<Rightarrow> None
      | Some name \<Rightarrow> if name \<noteq> [] then THEMES name else None)"

text \<open>
  \<^verbatim>\<open>const mergedAnn = themeDefaults && themeDefaults[ann.type]
      ? { ...themeDefaults[ann.type], ...ann }
      : ann;\<close>
  The spread copies the theme's fields, then the annotation's own fields over them.\<close>

definition mergedAnn :: "(real \<Rightarrow> string) \<Rightarrow> string option \<Rightarrow> obj \<Rightarrow> obj" where
  "mergedAnn ns theme ann =
     (case themeDefaults theme of
        None \<Rightarrow> ann
      | Some table \<Rightarrow>
          (case table (toStr ns (field ann ''type'')) of
             None \<Rightarrow> ann
           | Some defaults \<Rightarrow> defaults ++ ann))"

text \<open>The \<^verbatim>\<open>switch (ann.type)\<close>: the compiler for each type string and alias; \<open>None\<close> is the
  \<^verbatim>\<open>default\<close> branch.\<close>

definition dispatch ::
  "jsval \<Rightarrow> ((real \<Rightarrow> string) \<Rightarrow> obj \<Rightarrow> nat \<Rightarrow> error + (fragment \<times> nat)) option" where
  "dispatch ty =
     (if ty = JStr ''marker'' \<or> ty = JStr ''number'' then Some createMarker
      else if ty = JStr ''arrow'' then Some createArrow
      else if ty = JStr ''curved-arrow'' \<or> ty = JStr ''curvedArrow'' then Some createCurvedArrow
      else if ty = JStr ''callout'' then Some createCallout
      else if ty = JStr ''rect'' \<or> ty = JStr ''rectangle'' \<or> ty = JStr ''box'' then Some createRect
      else if ty = JStr ''circle'' then Some createCircle
      else if ty = JStr ''label'' \<or> ty = JStr ''text'' then Some createLabel
      else if ty = JStr ''highlight'' then Some createHighlight
      else if ty = JStr ''blur'' then Some createBlur
      else if ty = JStr ''connector'' \<or> ty = JStr ''line'' then Some createConnector
      else if ty = JStr ''icon'' then Some createIcon
      else None)"

text \<open>The state of the loop in \<^verbatim>\<open>buildSvg\<close>: the id counter, the arrays \<^verbatim>\<open>defs\<close> and
  \<^verbatim>\<open>elements\<close>, and the lines written by \<^verbatim>\<open>console.warn\<close>.\<close>

record build_state =
  st_idCounter :: nat
  st_defs :: "string list"
  st_elements :: "string list"
  st_warnings :: "string list"

text \<open>One iteration of \<^verbatim>\<open>for (const ann of annotations)\<close>. An unknown type warns and
  continues; otherwise the fragment's parts are pushed when they are not empty.\<close>

definition buildStep :: "(real \<Rightarrow> string) \<Rightarrow> string option \<Rightarrow> obj \<Rightarrow> build_state \<Rightarrow> error + build_state" where
  \<open>buildStep ns theme ann st =
     (let merged = mergedAnn ns theme ann
      in case dispatch (field ann ''type'') of
           None \<Rightarrow>
             Inr (st\<lparr>st_warnings := st_warnings st @
                    [''Unknown annotation type: '' @ toStr ns (field ann ''type'')]\<rparr>)
         | Some create \<Rightarrow>
             (case create ns merged (st_idCounter st) of
                Inl e \<Rightarrow> Inl e
              | Inr (result, idCounter') \<Rightarrow>
                  Inr (st\<lparr>st_idCounter := idCounter',
                         st_defs := (if defs result \<noteq> [] then st_defs st @ [defs result]
                                     else st_defs st),
                         st_elements := (if element result \<noteq> [] then st_elements st @ [element result]
                                         else st_elements st)\<rparr>)))\<close>

fun buildLoop :: "(real \<Rightarrow> string) \<Rightarrow> string option \<Rightarrow> obj list \<Rightarrow> build_state \<Rightarrow> error + build_state" where
  "buildLoop ns theme [] st = Inr st"
| "buildLoop ns theme (ann # anns) st =
     (case buildStep ns theme ann st of
        Inl e \<Rightarrow> Inl e
      | Inr st' \<Rightarrow> buildLoop ns theme anns st')"

text \<open>\<^verbatim>\<open>buildSvg\<close> up to its \<^verbatim>\<open>return\<close>. The last argument is the value of the process-wide
  counter when the function is entered; the first statement, \<^verbatim>\<open>idCounter = 0\<close>, overwrites
  it.\<close>

definition buildSvgState :: "(real \<Rightarrow> string) \<Rightarrow> obj list \<Rightarrow> string option \<Rightarrow> nat \<Rightarrow> error + build_state" where
  "buildSvgState ns annotations theme idCounter =
     (let idCounter = 0;
          defsArr = [];
          elementsArr = []
      in buildLoop ns theme annotations
           \<lparr>st_idCounter = idCounter, st_defs = defsArr, st_elements = elementsArr,
            st_warnings = []\<rparr>)"

text \<open>The returned document.\<close>

definition document :: "(real \<Rightarrow> string) \<Rightarrow> jsval \<Rightarrow> jsval \<Rightarrow> string list \<Rightarrow> string list \<Rightarrow> string" where
  \<open>document ns width height defsArr elementsArr =
     (''<?xml version="1.0" encoding="UTF-8"?>'' @ ''\<newline><svg width="'' @ toStr ns width @
      ''" height="'' @ toStr ns height @ ''" xmlns="http://www.w3.org/2000/svg">'' @
      ''\<newline>  <defs>'' @ ''\<newline>    '' @ join ''\<newline>'' defsArr @
      ''\<newline>  </defs>'' @ ''\<newline>  '' @ join ''\<newline>'' elementsArr @
      ''\<newline></svg>'')\<close>

definition buildSvg ::
  "(real \<Rightarrow> string) \<Rightarrow> jsval \<Rightarrow> jsval \<Rightarrow> obj list \<Rightarrow> string option \<Rightarrow> nat \<Rightarrow> error + string" where
  "buildSvg ns width height annotations theme idCounter =
     (case buildSvgState ns annotations theme idCounter of
        Inl e \<Rightarrow> Inl e
      | Inr st \<Rightarrow> Inr (document ns width height (st_defs st) (st_elements st)))"

section \<open>Composition\<close>

text \<open>The file system and the image library, as \<^verbatim>\<open>annotateImage\<close> uses them:
  \<^verbatim>\<open>fs.existsSync\<close>, \<^verbatim>\<open>sharp(path).metadata()\<close> giving width and height, and
  \<^verbatim>\<open>sharp(path).composite([...]).toFile(out)\<close>, which succeeds or throws.\<close>

record image_io =
  existsSync :: "string \<Rightarrow> bool"
  metadata :: "string \<Rightarrow> error + (jsval \<times> jsval)"
  compositeToFile :: "string \<Rightarrow> string \<Rightarrow> string \<Rightarrow> error option"

record annotate_result =
  res_outputPath :: string
  res_width :: jsval
  res_height :: jsval
  annotationCount :: nat

definition annotateImage ::
  "image_io \<Rightarrow> (real \<Rightarrow> string) \<Rightarrow> string \<Rightarrow> string \<Rightarrow> obj list \<Rightarrow> string option \<Rightarrow> nat
     \<Rightarrow> error + annotate_result" where
  "annotateImage io ns inputPath outputPath annotations theme idCounter =
     (if \<not> existsSync io inputPath then Inl (InputNotFound inputPath)
      else
        (case metadata io inputPath of
           Inl e \<Rightarrow> Inl e
         | Inr (width, height) \<Rightarrow>
             (case buildSvg ns width height annotations theme idCounter of
                Inl e \<Rightarrow> Inl e
              | Inr svg \<Rightarrow>
                  (case compositeToFile io inputPath svg outputPath of
                     Some e \<Rightarrow> Inl e
                   | None \<Rightarrow>
                       Inr \<lparr>res_outputPath = outputPath, res_width = width, res_height = height,
                            annotationCount = length annotations\<rparr>))))"

section \<open>Observations and examples used in the statements\<close>


text \<open>The drawable element of one annotation, compiled when the counter stands at
  \<open>idCounter\<close>: the \<^verbatim>\<open>element\<close> of its fragment, as a list of one string, or the empty list
  when the type is unknown, the compiler fails or the element is the empty string.\<close>

definition elementOf :: "(real \<Rightarrow> string) \<Rightarrow> string option \<Rightarrow> obj \<Rightarrow> nat \<Rightarrow> string list" where
  "elementOf ns theme ann idCounter =
     (case dispatch (field ann ''type'') of
        None \<Rightarrow> []
      | Some create \<Rightarrow>
          (case create ns (mergedAnn ns theme ann) idCounter of
             Inl e \<Rightarrow> []
           | Inr (result, idCounter') \<Rightarrow> if element result \<noteq> [] then [element result] else []))"

text \<open>The value of the counter when the loop of \<^verbatim>\<open>buildSvg\<close> reaches the annotation at
  position \<open>i\<close>.\<close>

definition counterAt :: "(real \<Rightarrow> string) \<Rightarrow> string option \<Rightarrow> obj list \<Rightarrow> nat \<Rightarrow> nat" where
  "counterAt ns theme annotations i =
     (case buildSvgState ns (take i annotations) theme 0 of
        Inl e \<Rightarrow> 0
      | Inr st \<Rightarrow> st_idCounter st)"

text \<open>Escaping as the specification words it: each ampersand, angle bracket and quote is
  replaced by its entity, every other character is kept.\<close>

definition escapeChar :: "char \<Rightarrow> string" where
  "escapeChar ch =
     (if ch = CHR ''&'' then ''&amp;''
      else if ch = CHR ''<'' then ''&lt;''
      else if ch = CHR ''>'' then ''&gt;''
      else if ch = CHR 0x22 then ''&quot;''
      else if ch = CHR 0x27 then ''&apos;''
      else [ch])"

text \<open>A number formatter for the examples. It prints the integer part in decimal, which
  is what \<^verbatim>\<open>Number::toString\<close> prints for the integers the examples use.\<close>

definition decimal :: "real \<Rightarrow> string" where
  "decimal r = (if r < 0 then ''-'' @ natStr (nat \<lfloor>- r\<rfloor>) else natStr (nat \<lfloor>r\<rfloor>))"

text \<open>Example descriptors:
  \<^verbatim>\<open>{type:"circle", x:50, y:50, radius:20}\<close>, \<^verbatim>\<open>{type:"sparkle", x:1, y:1}\<close>,
  \<^verbatim>\<open>{type:"rect", x:10, y:10, width:30, height:20}\<close>,
  \<^verbatim>\<open>{type:"label", x:10, y:20, text:"<A & B>"}\<close>,
  \<^verbatim>\<open>{type:"marker", x:0, y:0, number:1, color:"red"}\<close>,
  \<^verbatim>\<open>{type:"marker", x:100, y:100, number:n, size:28, style:"badge"}\<close> and
  \<^verbatim>\<open>{type:"box", x:10, y:10, width:30, height:20}\<close>.\<close>

definition exCircle :: obj where
  "exCircle = map_of
     [(''type'', JStr ''circle''), (''x'', JNum 50), (''y'', JNum 50), (''radius'', JNum 20)]"

definition exSparkle :: obj where
  "exSparkle = map_of [(''type'', JStr ''sparkle''), (''x'', JNum 1), (''y'', JNum 1)]"

definition exRect :: obj where
  "exRect = map_of
     [(''type'', JStr ''rect''), (''x'', JNum 10), (''y'', JNum 10), (''width'', JNum 30),
      (''height'', JNum 20)]"

definition exLabel :: obj where
  "exLabel = map_of
     [(''type'', JStr ''label''), (''x'', JNum 10), (''y'', JNum 20), (''text'', JStr ''<A & B>'')]"

definition exMarker :: obj where
  "exMarker = map_of
     [(''type'', JStr ''marker''), (''x'', JNum 0), (''y'', JNum 0), (''number'', JNum 1),
      (''color'', JStr ''red'')]"

definition exBadge :: "real \<Rightarrow> obj" where
  "exBadge n = map_of
     [(''type'', JStr ''marker''), (''x'', JNum 100), (''y'', JNum 100), (''number'', JNum n),
      (''size'', JNum 28), (''style'', JStr ''badge'')]"

definition exBox :: obj where
  "exBox = map_of
     [(''type'', JStr ''box''), (''x'', JNum 10), (''y'', JNum 10), (''width'', JNum 30),
      (''height'', JNum 20)]"

text \<open>The element markup of the example circle, rectangle and label.\<close>

definition exCircleElement :: string where
  \<open>exCircleElement =
     ''\<newline>    <circle cx="50" cy="50" r="20"'' @
     ''\<newline>            fill="none" stroke="#E53935" stroke-width="3"  />'' @
     ''\<newline>  ''\<close>

definition exRectElement :: string where
  \<open>exRectElement =
     ''\<newline>    <rect x="10" y="10" width="30" height="20" rx="8"'' @
     ''\<newline>          fill="none" stroke="#E53935" stroke-width="3"  />'' @ ''\<newline>  ''\<close>

definition exLabelElement :: string where
  \<open>exLabelElement =
     ''\<newline>    <text x="10" y="20" fill="#424242" font-size="16"'' @
     ''\<newline>          font-weight="bold" font-family="Arial, Helvetica, sans-serif">&lt;A &amp; B&gt;</text>'' @
     ''\<newline>  ''\<close>

text \<open>A label whose text is the array \<^verbatim>\<open>['<b>']\<close>, and the element the code builds for
  it.\<close>

definition exArrayLabel :: obj where
  "exArrayLabel = map_of
     [(''type'', JStr ''label''), (''x'', JNum 10), (''y'', JNum 20), (''text'', JArr [JStr ''<b>''])]"

definition exArrayLabelElement :: string where
  \<open>exArrayLabelElement =
     (''\<newline>    <text x="10" y="20" fill="#424242" font-size="16"'' @
      ''\<newline>          font-weight="bold" font-family="Arial, Helvetica, sans-serif'') @
     (''"><b></text>'' @ ''\<newline>  '')\<close>

text \<open>An image library on which every call succeeds, for a source of 100 by 100
  pixels.\<close>

definition exIo :: image_io where
  "exIo = \<lparr>existsSync = (\<lambda>path. True),
           metadata = (\<lambda>path. Inr (JNum 100, JNum 100)),
           compositeToFile = (\<lambda>path svg out. None)\<rparr>"

section \<open>Colour resolution\<close>

lemma COLORS_values_not_empty: "COLORS name = Some hex \<Longrightarrow> hex \<noteq> []"
  unfolding COLORS_def by (auto split: if_splits)

lemma getColor_palette: "COLORS name = Some hex \<Longrightarrow> getColor ns (JStr name) = JStr hex"
  using COLORS_values_not_empty [of name hex] by (simp add: getColor_def COLORS_get_def)

lemma getColor_blue: "getColor ns (JStr ''blue'') = JStr ''#1E88E5''"
  by (simp add: getColor_def COLORS_get_def COLORS_def)

lemma getColor_darkGray: "getColor ns (JStr ''darkGray'') = JStr ''#424242''"
  by (simp add: getColor_def COLORS_get_def COLORS_def)

lemma getColor_red: "getColor ns (JStr ''red'') = JStr ''#E53935''"
  by (simp add: getColor_def COLORS_get_def COLORS_def)

lemma getColor_verbatim:
  "COLORS s = None \<Longrightarrow> objectPrototype s = None \<Longrightarrow> s \<noteq> [] \<Longrightarrow> getColor ns (JStr s) = JStr s"
  by (simp add: getColor_def COLORS_get_def)

lemma getColor_hex_literal: "getColor ns (JStr ''#123456'') = JStr ''#123456''"
  by (simp add: getColor_def COLORS_get_def COLORS_def objectPrototype_def)

lemma getColor_falsy:
  "getColor ns JUndefined = JStr ''#E53935''"
  "getColor ns JNull = JStr ''#E53935''"
  "getColor ns (JBool False) = JStr ''#E53935''"
  "getColor ns (JStr []) = JStr ''#E53935''"
  by (simp_all add: getColor_def COLORS_get_def COLORS_def objectPrototype_def)

lemma getColor_truthy: "truthy (getColor ns color)"
  by (auto simp add: getColor_def COLORS_get_def COLORS_def objectPrototype_def Let_def
      split: option.splits if_splits)

lemma adjustColor_builtin:
  "adjustColor (JFun n) amount = Inl TypeError"
  "adjustColor JProto amount = Inl TypeError"
  by (simp_all add: adjustColor_def)

text \<open>C3. The claim: colour resolution is total; a name of the palette resolves to its
  hex value, any other string is returned verbatim, and a falsy input resolves to the
  default red. On the source this fails for the strings that name a property of
  \<^verbatim>\<open>Object.prototype\<close>: \<^verbatim>\<open>getColor("constructor")\<close> finds the inherited member and returns
  the function \<^verbatim>\<open>Object\<close>, not the string; a marker of that colour then makes
  \<^verbatim>\<open>adjustColor\<close> throw, which ends the document build.\<close>

theorem getColor_inherited_property:
  "getColor ns (JStr ''constructor'') = JFun ''Object''
   \<and> getColor ns (JStr ''constructor'') \<noteq> JStr ''constructor''
   \<and> createMarker ns (exMarker(''color'' \<mapsto> JStr ''constructor'')) idCounter = Inl TypeError"
proof -
  have c: "getColor ns (JStr ''constructor'') = JFun ''Object''"
    by (simp add: getColor_def COLORS_get_def COLORS_def objectPrototype_def)
  have "fieldDefault (exMarker(''color'' \<mapsto> JStr ''constructor'')) ''color'' (JStr ''red'')
          = JStr ''constructor''"
    by (simp add: fieldDefault_def field_def)
  then have "createMarker ns (exMarker(''color'' \<mapsto> JStr ''constructor'')) idCounter = Inl TypeError"
    by (simp add: createMarker_def c adjustColor_def Let_def split: prod.splits)
  with c show ?thesis by simp
qed

section \<open>Marker badge\<close>

text \<open>The darker stop of the default red: each channel of \<^verbatim>\<open>#E53935\<close> lowered by 30.\<close>

lemma hexRun_red: "hexRun ''E53935'' = (False, ''E53935'')"
  by (simp add: hexRun_def stripSign_def stripPrefix0x_def isWhiteSpace_def hexDigitVal_def)

lemma hexValue_red: "hexValue ''E53935'' = 15022389"
  by (simp add: hexValue_def hexDigitVal_def)

lemma hexStr_darker_red: "hexStr 13048599 = ''c71b17''"
  by (simp add: hexStr.simps digitChar_def)

lemma adjustColor_red: "adjustColor (JStr ''#E53935'') (- 30) = Inr ''#c71b17''"
  by (simp add: adjustColor_def hexRun_red parseInt16_def hexValue_red toInt32_def padStart_def
      hexStr_darker_red)

lemma badgeWidth_multi_digit_narrower:
  "0 < sizeN \<Longrightarrow> 9 < numberN \<Longrightarrow> m \<le> 9 \<Longrightarrow> badgeWidth numberN sizeN < badgeWidth m sizeN"
  by (simp add: badgeWidth_def)

lemma badgeElement_width:
  \<open>sublist (''" width="'' @ ns (badgeWidth numberN sizeN) @ ''" height="'' @ ns (sizeN * 2) @ ''"'')
     (badgeElement ns x number xN yN sizeN numberN gradientId filterAttr)\<close>
  unfolding sublist_def
proof (intro exI)
  show \<open>badgeElement ns x number xN yN sizeN numberN gradientId filterAttr =
      (''\<newline>      <rect x="'' @ ns (xN - badgeWidth numberN sizeN / 2) @ ''" y="'' @
       ns (yN - sizeN * 2 / 2))
      @ (''" width="'' @ ns (badgeWidth numberN sizeN) @ ''" height="'' @ ns (sizeN * 2) @ ''"'')
      @ (''\<newline>            rx="'' @ ns (sizeN * 2 / 2) @ ''" fill="url(#'' @
         gradientId @ '')" '' @ filterAttr @ ''/>'' @ ''\<newline>      <text x="'' @
         toStr ns x @ ''" y="'' @ ns (yN + sizeN * 0.35) @
         ''" text-anchor="middle" fill="white"'' @
         ''\<newline>            font-size="'' @ ns (sizeN * 0.9) @
         ''" font-weight="bold" font-family="Arial, Helvetica, sans-serif">'' @
         toStr ns number @ ''</text>'' @ ''\<newline>    '')\<close>
    unfolding badgeElement_def Let_def by (simp only: append_assoc)
qed

lemma createMarker_exBadge:
  \<open>\<exists>d. createMarker ns (exBadge n) c =
         Inr (\<lparr>defs = d,
               element = badgeElement ns (JNum 100) (JNum n) 100 100 28 n
                           (''marker-'' @ natStr (Suc c) @ ''-gradient'')
                           (''filter="url(#'' @ ''marker-'' @ natStr (Suc c) @ ''-shadow)"'')\<rparr>,
              Suc c)\<close>
  by (simp add: createMarker_def exBadge_def field_def fieldDefault_def getColor_red adjustColor_red
      generateId_def Let_def)

text \<open>C2. The claim: with the same size, the badge of a two-digit number is wider than the
  badge of a one-digit number. The source takes the multi-digit branch for 15, but that
  branch multiplies the size by 1.6 where the one-digit branch multiplies it by 2: at the
  size 28 the \<^verbatim>\<open>rect\<close> of the marker numbered 15 is 44.8 wide and that of the marker
  numbered 3 is 56 wide, both 56 high.\<close>

theorem badge_two_digits_not_wider:
  \<open>badgeWidth 15 28 = 44.8 \<and> badgeWidth 3 28 = 56 \<and> badgeWidth 15 28 < badgeWidth 3 28
   \<and> (\<exists>frag. createMarker ns (exBadge 15) 0 = Inr (frag, 1)
         \<and> sublist (''" width="'' @ ns 44.8 @ ''" height="'' @ ns 56 @ ''"'') (element frag))
   \<and> (\<exists>frag. createMarker ns (exBadge 3) 0 = Inr (frag, 1)
         \<and> sublist (''" width="'' @ ns 56 @ ''" height="'' @ ns 56 @ ''"'') (element frag))\<close>
proof -
  have w: "badgeWidth 15 28 = 44.8" "badgeWidth 3 28 = 56" "(28::real) * 2 = 56"
    by (simp_all add: badgeWidth_def)
  obtain d15 where m15: \<open>createMarker ns (exBadge 15) 0 =
         Inr (\<lparr>defs = d15,
               element = badgeElement ns (JNum 100) (JNum 15) 100 100 28 15
                           (''marker-'' @ natStr (Suc 0) @ ''-gradient'')
                           (''filter="url(#'' @ ''marker-'' @ natStr (Suc 0) @ ''-shadow)"'')\<rparr>,
              Suc 0)\<close>
    using createMarker_exBadge [of ns 15 0] by blast
  obtain d3 where m3: \<open>createMarker ns (exBadge 3) 0 =
         Inr (\<lparr>defs = d3,
               element = badgeElement ns (JNum 100) (JNum 3) 100 100 28 3
                           (''marker-'' @ natStr (Suc 0) @ ''-gradient'')
                           (''filter="url(#'' @ ''marker-'' @ natStr (Suc 0) @ ''-shadow)"'')\<rparr>,
              Suc 0)\<close>
    using createMarker_exBadge [of ns 3 0] by blast
  have s15: \<open>sublist (''" width="'' @ ns 44.8 @ ''" height="'' @ ns 56 @ ''"'')
      (badgeElement ns (JNum 100) (JNum 15) 100 100 28 15
         (''marker-'' @ natStr (Suc 0) @ ''-gradient'')
         (''filter="url(#'' @ ''marker-'' @ natStr (Suc 0) @ ''-shadow)"''))\<close>
    using badgeElement_width [of ns 15 28] unfolding w .
  have s3: \<open>sublist (''" width="'' @ ns 56 @ ''" height="'' @ ns 56 @ ''"'')
      (badgeElement ns (JNum 100) (JNum 3) 100 100 28 3
         (''marker-'' @ natStr (Suc 0) @ ''-gradient'')
         (''filter="url(#'' @ ''marker-'' @ natStr (Suc 0) @ ''-shadow)"''))\<close>
    using badgeElement_width [of ns 3 28] unfolding w .
  from m15 s15 have e15: \<open>\<exists>frag. createMarker ns (exBadge 15) 0 = Inr (frag, 1)
         \<and> sublist (''" width="'' @ ns 44.8 @ ''" height="'' @ ns 56 @ ''"'') (element frag)\<close>
    by simp
  from m3 s3 have e3: \<open>\<exists>frag. createMarker ns (exBadge 3) 0 = Inr (frag, 1)
         \<and> sublist (''" width="'' @ ns 56 @ ''" height="'' @ ns 56 @ ''"'') (element frag)\<close>
    by simp
  from w e15 e3 show ?thesis
    by simp
qed

section \<open>Theme defaults\<close>

lemma THEMES_table_keys:
  "THEMES name = Some table \<Longrightarrow> table k = Some d \<Longrightarrow> k \<in> {''marker'', ''arrow'', ''label'', ''callout''}"
  unfolding THEMES_def
  by (auto split: if_splits)

lemma THEMES_empty_name: "THEMES [] = None"
  by (simp add: THEMES_def)

lemma THEMES_tutorial_marker:
  "THEMES ''tutorial'' = Some table \<Longrightarrow>
     table ''marker'' = Some (map_of [(''color'', JStr ''green''), (''size'', JNum 32)])"
  by (auto simp add: THEMES_def)

text \<open>C4. Where the active theme defines defaults for the annotation's type, the merged
  descriptor has, for every field name, the annotation's own field if the annotation has
  one, and the theme's default otherwise.\<close>

theorem theme_merge_explicit_wins:
  assumes "THEMES theme = Some table"
    and "field ann ''type'' = JStr ty"
    and "table ty = Some defaults"
  shows "mergedAnn ns (Some theme) ann k = (case ann k of Some v \<Rightarrow> Some v | None \<Rightarrow> defaults k)"
proof -
  from assms(1) have "theme \<noteq> []"
    by (auto simp add: THEMES_empty_name)
  with assms show ?thesis
    by (simp add: mergedAnn_def themeDefaults_def map_add_def split: option.splits)
qed

text \<open>The example of the claim: under the theme \<^verbatim>\<open>tutorial\<close>, whose marker defaults are
  \<^verbatim>\<open>{color: 'green', size: 32}\<close>, the marker with \<^verbatim>\<open>color: "red"\<close> keeps its colour and
  takes the size of the theme; its colour resolves to the red of the palette.\<close>

theorem theme_merge_explicit_wins_witness:
  "(\<exists>table. THEMES ''tutorial'' = Some table
        \<and> table ''marker'' = Some (map_of [(''color'', JStr ''green''), (''size'', JNum 32)]))
   \<and> field exMarker ''type'' = JStr ''marker''
   \<and> mergedAnn decimal (Some ''tutorial'') exMarker ''color'' = Some (JStr ''red'')
   \<and> mergedAnn decimal (Some ''tutorial'') exMarker ''size'' = Some (JNum 32)
   \<and> getColor decimal (fieldDefault (mergedAnn decimal (Some ''tutorial'') exMarker) ''color'' (JStr ''red''))
       = JStr ''#E53935''"
proof -
  obtain table where t: "THEMES ''tutorial'' = Some table"
    by (simp add: THEMES_def)
  note m = THEMES_tutorial_marker [OF t]
  have ty: "field exMarker ''type'' = JStr ''marker''"
    by (simp add: exMarker_def field_def)
  have c: "mergedAnn decimal (Some ''tutorial'') exMarker ''color'' = Some (JStr ''red'')"
    using theme_merge_explicit_wins [OF t ty m, of decimal "''color''"]
    by (simp add: exMarker_def)
  have s: "mergedAnn decimal (Some ''tutorial'') exMarker ''size'' = Some (JNum 32)"
    using theme_merge_explicit_wins [OF t ty m, of decimal "''size''"]
    by (simp add: exMarker_def)
  from c have "fieldDefault (mergedAnn decimal (Some ''tutorial'') exMarker) ''color'' (JStr ''red'')
      = JStr ''red''"
    by (simp add: fieldDefault_def field_def)
  with t m ty c s show ?thesis
    by (simp add: getColor_red)
qed

text \<open>C10. Theme defaults are looked up under the literal type string. For an annotation
  whose type is one of the aliases \<^verbatim>\<open>number\<close>, \<^verbatim>\<open>text\<close>, \<^verbatim>\<open>line\<close>, \<^verbatim>\<open>box\<close>, \<^verbatim>\<open>rectangle\<close>,
  \<^verbatim>\<open>curvedArrow\<close>, and for every theme, the merged descriptor is the annotation itself,
  although the alias dispatches to the compiler of its canonical type.\<close>

theorem alias_types_get_no_theme_defaults:
  assumes "field ann ''type'' = JStr ty"
    and "ty \<in> {''number'', ''text'', ''line'', ''box'', ''rectangle'', ''curvedArrow''}"
  shows "mergedAnn ns theme ann = ann
       \<and> dispatch (JStr ty) \<noteq> None
       \<and> dispatch (JStr ''number'') = dispatch (JStr ''marker'')
       \<and> dispatch (JStr ''text'') = dispatch (JStr ''label'')
       \<and> dispatch (JStr ''line'') = dispatch (JStr ''connector'')
       \<and> dispatch (JStr ''box'') = dispatch (JStr ''rect'')
       \<and> dispatch (JStr ''rectangle'') = dispatch (JStr ''rect'')
       \<and> dispatch (JStr ''curvedArrow'') = dispatch (JStr ''curved-arrow'')"
proof -
  have "table ty = None" if "THEMES name = Some table" for name table
  proof (cases "table ty")
    case None
    then show ?thesis .
  next
    case (Some d)
    from THEMES_table_keys [OF that Some] assms(2) show ?thesis
      by auto
  qed
  then have "table (toStr ns (field ann ''type'')) = None" if "themeDefaults theme = Some table" for table
    using that by (cases theme) (simp_all add: themeDefaults_def assms(1) split: if_splits)
  then have merged: "mergedAnn ns theme ann = ann"
    by (cases "themeDefaults theme") (simp_all add: mergedAnn_def)
  from assms(2) have known: "dispatch (JStr ty) \<noteq> None"
    unfolding dispatch_def by auto
  have "dispatch (JStr ''number'') = dispatch (JStr ''marker'')"
    "dispatch (JStr ''text'') = dispatch (JStr ''label'')"
    "dispatch (JStr ''line'') = dispatch (JStr ''connector'')"
    "dispatch (JStr ''box'') = dispatch (JStr ''rect'')"
    "dispatch (JStr ''rectangle'') = dispatch (JStr ''rect'')"
    "dispatch (JStr ''curvedArrow'') = dispatch (JStr ''curved-arrow'')"
    by (simp_all add: dispatch_def)
  with merged known show ?thesis
    by simp
qed

theorem alias_types_get_no_theme_defaults_witness:
  "field exBox ''type'' = JStr ''box''
   \<and> ''box'' \<in> {''number'', ''text'', ''line'', ''box'', ''rectangle'', ''curvedArrow''}
   \<and> mergedAnn decimal (Some ''tutorial'') exBox = exBox
   \<and> dispatch (JStr ''box'') \<noteq> None"
proof -
  have ty: "field exBox ''type'' = JStr ''box''"
    by (simp add: exBox_def field_def)
  have mem: "''box'' \<in> {''number'', ''text'', ''line'', ''box'', ''rectangle'', ''curvedArrow''}"
    by simp
  from alias_types_get_no_theme_defaults [OF ty mem, of decimal "Some ''tutorial''"]
  have "mergedAnn decimal (Some ''tutorial'') exBox = exBox" and "dispatch (JStr ''box'') \<noteq> None"
    by blast+
  with ty mem show ?thesis
    by blast
qed

section \<open>The assembly loop\<close>

lemma buildLoop_append:
  "buildLoop ns theme (xs @ ys) st =
     (case buildLoop ns theme xs st of Inl e \<Rightarrow> Inl e | Inr st' \<Rightarrow> buildLoop ns theme ys st')"
  by (induction xs arbitrary: st) (auto split: sum.splits)

lemma buildStep_elements:
  assumes "buildStep ns theme a st = Inr st'"
  shows "st_elements st' = st_elements st @ elementOf ns theme a (st_idCounter st)"
proof (cases "dispatch (field a ''type'')")
  case None
  with assms show ?thesis
    by (auto simp add: buildStep_def elementOf_def)
next
  case (Some create)
  show ?thesis
  proof (cases "create ns (mergedAnn ns theme a) (st_idCounter st)")
    case (Inl e)
    with Some assms show ?thesis
      by (simp add: buildStep_def)
  next
    case (Inr p)
    obtain result c where p: "p = (result, c)"
      by (cases p)
    from assms Some Inr p show ?thesis
      by (auto simp add: buildStep_def elementOf_def)
  qed
qed

lemma buildStep_unknown:
  "dispatch (field u ''type'') = None \<Longrightarrow>
   buildStep ns theme u st =
     Inr (st\<lparr>st_warnings := st_warnings st @
            [''Unknown annotation type: '' @ toStr ns (field u ''type'')]\<rparr>)"
  by (simp add: buildStep_def)





subsection \<open>The examples, evaluated\<close>

lemma natStr_digits: "natStr 1 = ''1''" "natStr 2 = ''2''"
  by (simp_all add: natStr.simps digitChar_def)

lemma decimal_hundred: "decimal 100 = ''100''"
  by (simp add: decimal_def natStr.simps digitChar_def)

lemma decimal_examples:
  "decimal 3 = ''3''" "decimal 8 = ''8''" "decimal 10 = ''10''" "decimal 16 = ''16''"
  "decimal 20 = ''20''" "decimal 30 = ''30''" "decimal 50 = ''50''"
  by (simp_all add: decimal_def natStr.simps digitChar_def)

lemma createCircle_example:
  "createCircle decimal exCircle c = Inr (\<lparr>defs = [], element = exCircleElement\<rparr>, Suc c)"
  by (simp add: createCircle_def exCircle_def exCircleElement_def field_def fieldDefault_def
      getColor_red generateId_def decimal_examples)

lemma createRect_example:
  "createRect decimal exRect c = Inr (\<lparr>defs = [], element = exRectElement\<rparr>, Suc c)"
  by (simp add: createRect_def exRect_def exRectElement_def field_def fieldDefault_def
      getColor_red generateId_def decimal_examples)

lemma createLabel_example:
  "createLabel decimal exLabel c = Inr (\<lparr>defs = [], element = exLabelElement\<rparr>, Suc c)"
  by (simp add: createLabel_def labelText_def exLabel_def exLabelElement_def field_def
      fieldDefault_def getColor_darkGray generateId_def decimal_examples escapeXml_def
      escapeXmlStr_def)

lemma example_types:
  "dispatch (field exCircle ''type'') = Some createCircle"
  "dispatch (field exRect ''type'') = Some createRect"
  "dispatch (field exSparkle ''type'') = None"
  by (simp_all add: dispatch_def field_def exCircle_def exRect_def exSparkle_def)

lemma example_elements_not_empty: "exCircleElement \<noteq> []" "exRectElement \<noteq> []"
  by (simp_all add: exCircleElement_def exRectElement_def)

lemma buildStep_exCircle:
  "buildStep decimal None exCircle st =
     Inr (st\<lparr>st_idCounter := Suc (st_idCounter st), st_defs := st_defs st,
            st_elements := st_elements st @ [exCircleElement]\<rparr>)"
  by (simp add: buildStep_def example_types mergedAnn_def themeDefaults_def createCircle_example
      example_elements_not_empty)

lemma buildStep_exRect:
  "buildStep decimal None exRect st =
     Inr (st\<lparr>st_idCounter := Suc (st_idCounter st), st_defs := st_defs st,
            st_elements := st_elements st @ [exRectElement]\<rparr>)"
  by (simp add: buildStep_def example_types mergedAnn_def themeDefaults_def createRect_example
      example_elements_not_empty)

lemma buildStep_exSparkle:
  "buildStep decimal None exSparkle st =
     Inr (st\<lparr>st_warnings := st_warnings st @ [''Unknown annotation type: sparkle'']\<rparr>)"
  by (simp add: buildStep_unknown example_types) (simp add: field_def exSparkle_def)

lemma buildSvgState_two:
  "buildSvgState decimal [exCircle, exRect] None g =
     Inr \<lparr>st_idCounter = 2, st_defs = [], st_elements = [exCircleElement, exRectElement],
          st_warnings = []\<rparr>"
  by (simp add: buildSvgState_def buildStep_exCircle buildStep_exRect)

lemma buildSvgState_three:
  "buildSvgState decimal [exCircle, exSparkle, exRect] None g =
     Inr \<lparr>st_idCounter = 2, st_defs = [], st_elements = [exCircleElement, exRectElement],
          st_warnings = [''Unknown annotation type: sparkle'']\<rparr>"
  by (simp add: buildSvgState_def buildStep_exCircle buildStep_exRect buildStep_exSparkle)

subsection \<open>Order of the elements\<close>

text \<open>C1. The element sequence of the assembled document is the concatenation, in the
  order of the input list, of the element of each annotation (compiled at the counter
  value the loop has reached), and the string that \<^verbatim>\<open>buildSvg\<close> returns is the XML
  declaration, the opening tag and the definitions block, then these elements in that
  order, joined by line breaks, then the closing tag. So the element of an annotation that
  precedes another in the input precedes it in the returned document.\<close>

theorem buildSvg_elements_in_input_order:
  assumes "buildSvgState ns annotations theme g = Inr fin"
  shows \<open>st_elements fin =
           concat (map (\<lambda>i. elementOf ns theme (annotations ! i) (counterAt ns theme annotations i))
                       [0..<length annotations])
       \<and> buildSvg ns w h annotations theme g =
           Inr (''<?xml version="1.0" encoding="UTF-8"?>'' @ ''\<newline><svg width="'' @ toStr ns w @
                ''" height="'' @ toStr ns h @ ''" xmlns="http://www.w3.org/2000/svg">'' @
                ''\<newline>  <defs>'' @ ''\<newline>    '' @ join ''\<newline>'' (st_defs fin) @
                ''\<newline>  </defs>'' @ ''\<newline>  '' @
                join ''\<newline>''
                  (concat (map (\<lambda>i. elementOf ns theme (annotations ! i)
                                       (counterAt ns theme annotations i))
                               [0..<length annotations])) @
                ''\<newline></svg>'')\<close>
proof -
  have e: "st_elements fin =
           concat (map (\<lambda>i. elementOf ns theme (annotations ! i) (counterAt ns theme annotations i))
                       [0..<length annotations])"
    using assms
  proof (induction annotations arbitrary: fin rule: rev_induct)
    case Nil
    then show ?case by (auto simp add: buildSvgState_def)
  next
    case (snoc a xs)
    from snoc.prems obtain s where s: "buildSvgState ns xs theme g = Inr s"
      and step: "buildStep ns theme a s = Inr fin"
      by (auto simp add: buildSvgState_def buildLoop_append split: sum.splits)
    have c: "counterAt ns theme (xs @ [a]) (length xs) = st_idCounter s"
      using s by (simp add: counterAt_def buildSvgState_def)
    have eq: "map (\<lambda>i. elementOf ns theme ((xs @ [a]) ! i) (counterAt ns theme (xs @ [a]) i)) [0..<length xs]
        = map (\<lambda>i. elementOf ns theme (xs ! i) (counterAt ns theme xs i)) [0..<length xs]"
      by (rule map_cong) (auto simp add: nth_append counterAt_def)
    have "concat (map (\<lambda>i. elementOf ns theme ((xs @ [a]) ! i) (counterAt ns theme (xs @ [a]) i))
                   [0..<length (xs @ [a])])
        = concat (map (\<lambda>i. elementOf ns theme (xs ! i) (counterAt ns theme xs i)) [0..<length xs])
          @ elementOf ns theme a (st_idCounter s)"
      unfolding length_append_singleton upt_Suc_append [OF le0] map_append concat_append eq
      by (simp add: c)
    with snoc.IH [OF s] buildStep_elements [OF step] show ?case
      by simp
  qed
  from assms have "buildSvg ns w h annotations theme g =
      Inr (document ns w h (st_defs fin) (st_elements fin))"
    by (simp add: buildSvg_def)
  then have d: \<open>buildSvg ns w h annotations theme g =
           Inr (''<?xml version="1.0" encoding="UTF-8"?>'' @ ''\<newline><svg width="'' @ toStr ns w @
                ''" height="'' @ toStr ns h @ ''" xmlns="http://www.w3.org/2000/svg">'' @
                ''\<newline>  <defs>'' @ ''\<newline>    '' @ join ''\<newline>'' (st_defs fin) @
                ''\<newline>  </defs>'' @ ''\<newline>  '' @
                join ''\<newline>'' (st_elements fin) @
                ''\<newline></svg>'')\<close>
    by (simp only: document_def)
  from e d [unfolded e] show ?thesis
    by (rule conjI)
qed

text \<open>The circle before the rectangle: in the returned document the circle's element
  comes first, then a line break, then the rectangle's element.\<close>

theorem buildSvg_elements_in_input_order_witness:
  \<open>buildSvgState decimal [exCircle, exRect] None 0 =
     Inr \<lparr>st_idCounter = 2, st_defs = [], st_elements = [exCircleElement, exRectElement],
          st_warnings = []\<rparr>
   \<and> [exCircleElement, exRectElement] =
       concat (map (\<lambda>i. elementOf decimal None ([exCircle, exRect] ! i)
                            (counterAt decimal None [exCircle, exRect] i))
                   [0..<length [exCircle, exRect]])
   \<and> buildSvg decimal (JNum 100) (JNum 100) [exCircle, exRect] None 0 =
       Inr (''<?xml version="1.0" encoding="UTF-8"?>'' @
            ''\<newline><svg width="100" height="100" xmlns="http://www.w3.org/2000/svg">'' @
            ''\<newline>  <defs>'' @ ''\<newline>    '' @ ''\<newline>  </defs>'' @ ''\<newline>  '' @
            exCircleElement @ ''\<newline>'' @ exRectElement @ ''\<newline></svg>'')\<close>
proof -
  note st = buildSvgState_two [of 0]
  note t = buildSvg_elements_in_input_order [OF st, of "JNum 100" "JNum 100"]
  from t have e: "[exCircleElement, exRectElement] =
       concat (map (\<lambda>i. elementOf decimal None ([exCircle, exRect] ! i)
                            (counterAt decimal None [exCircle, exRect] i))
                   [0..<length [exCircle, exRect]])"
    by (simp only: build_state.simps)
  from t have \<open>buildSvg decimal (JNum 100) (JNum 100) [exCircle, exRect] None 0 =
       Inr (''<?xml version="1.0" encoding="UTF-8"?>'' @ ''\<newline><svg width="'' @
            toStr decimal (JNum 100) @ ''" height="'' @ toStr decimal (JNum 100) @
            ''" xmlns="http://www.w3.org/2000/svg">'' @
            ''\<newline>  <defs>'' @ ''\<newline>    '' @ join ''\<newline>'' [] @
            ''\<newline>  </defs>'' @ ''\<newline>  '' @
            join ''\<newline>''
              (concat (map (\<lambda>i. elementOf decimal None ([exCircle, exRect] ! i)
                                   (counterAt decimal None [exCircle, exRect] i))
                           [0..<length [exCircle, exRect]])) @
            ''\<newline></svg>'')\<close>
    by (simp only: build_state.simps)
  then have d: \<open>buildSvg decimal (JNum 100) (JNum 100) [exCircle, exRect] None 0 =
       Inr (''<?xml version="1.0" encoding="UTF-8"?>'' @
            ''\<newline><svg width="100" height="100" xmlns="http://www.w3.org/2000/svg">'' @
            ''\<newline>  <defs>'' @ ''\<newline>    '' @ ''\<newline>  </defs>'' @ ''\<newline>  '' @
            exCircleElement @ ''\<newline>'' @ exRectElement @ ''\<newline></svg>'')\<close>
    unfolding e [symmetric] by (simp add: decimal_hundred)
  from st e d show ?thesis
    by (intro conjI)
qed

text \<open>The pairwise reading of the same fact: with \<open>a\<close> before \<open>b\<close> in the input, the final
  element sequence is the elements pushed up to \<open>a\<close>, then those of \<open>a\<close>, then those of the
  annotations between, then those of \<open>b\<close>, then the rest.\<close>

lemma buildLoop_elements_extend:
  "buildLoop ns theme xs st = Inr st' \<Longrightarrow> \<exists>es. st_elements st' = st_elements st @ es"
proof (induction xs arbitrary: st)
  case Nil
  then show ?case by simp
next
  case (Cons a xs)
  from Cons.prems obtain s where s: "buildStep ns theme a st = Inr s"
    and rest: "buildLoop ns theme xs s = Inr st'"
    by (auto split: sum.splits)
  from Cons.IH [OF rest] buildStep_elements [OF s] show ?case
    by auto
qed

lemma element_of_earlier_annotation_first:
  assumes "buildLoop ns theme (xs @ a # ys @ b # zs) st = Inr fin"
  shows "\<exists>sa sb mid rest.
           buildLoop ns theme xs st = Inr sa
         \<and> buildLoop ns theme (xs @ a # ys) st = Inr sb
         \<and> st_elements fin =
             st_elements sa @ elementOf ns theme a (st_idCounter sa) @ mid
               @ elementOf ns theme b (st_idCounter sb) @ rest"
proof -
  from assms obtain sa sa' sb sb' where sa: "buildLoop ns theme xs st = Inr sa"
    and a: "buildStep ns theme a sa = Inr sa'"
    and ys: "buildLoop ns theme ys sa' = Inr sb"
    and b: "buildStep ns theme b sb = Inr sb'"
    and zs: "buildLoop ns theme zs sb' = Inr fin"
    by (auto simp add: buildLoop_append split: sum.splits)
  from buildLoop_elements_extend [OF ys] obtain mid where mid: "st_elements sb = st_elements sa' @ mid"
    by blast
  from buildLoop_elements_extend [OF zs] obtain rest where rest: "st_elements fin = st_elements sb' @ rest"
    by blast
  from sa a ys have "buildLoop ns theme (xs @ a # ys) st = Inr sb"
    by (simp add: buildLoop_append)
  moreover from mid rest buildStep_elements [OF a] buildStep_elements [OF b]
  have "st_elements fin =
          st_elements sa @ elementOf ns theme a (st_idCounter sa) @ mid
            @ elementOf ns theme b (st_idCounter sb) @ rest"
    by simp
  ultimately show ?thesis
    using sa by blast
qed

text \<open>In the returned string: when \<open>a\<close> comes before \<open>b\<close> in the input and both produce an
  element, the document is some text, the element of \<open>a\<close>, some text, the element of \<open>b\<close>,
  and some text.\<close>

lemma join_Cons_not_empty: "ys \<noteq> [] \<Longrightarrow> join sep (x # ys) = x @ sep @ join sep ys"
  by (cases ys) simp_all

lemma join_holds_element: "\<exists>p r. join sep (xs @ y # zs) = p @ y @ r"
proof (induction xs)
  case Nil
  show ?case
  proof (cases zs)
    case Nil
    then have "join sep ([] @ y # zs) = [] @ y @ []" by simp
    then show ?thesis by blast
  next
    case (Cons z zs')
    then have "join sep ([] @ y # zs) = [] @ y @ (sep @ join sep zs)" by simp
    then show ?thesis by blast
  qed
next
  case (Cons x xs)
  then obtain p r where "join sep (xs @ y # zs) = p @ y @ r" by blast
  then have "join sep ((x # xs) @ y # zs) = (x @ sep @ p) @ y @ r"
    by (simp add: join_Cons_not_empty)
  then show ?case by blast
qed

lemma join_holds_elements_in_order:
  "\<exists>p m r. join sep (xs @ a # ys @ b # zs) = p @ a @ m @ b @ r"
proof (induction xs)
  case Nil
  from join_holds_element [of sep ys b zs] obtain q r where
    "join sep (ys @ b # zs) = q @ b @ r" by blast
  then have "join sep ([] @ a # ys @ b # zs) = [] @ a @ (sep @ q) @ b @ r"
    by (simp add: join_Cons_not_empty)
  then show ?case by blast
next
  case (Cons x xs)
  then obtain p m r where "join sep (xs @ a # ys @ b # zs) = p @ a @ m @ b @ r" by blast
  then have "join sep ((x # xs) @ a # ys @ b # zs) = (x @ sep @ p) @ a @ m @ b @ r"
    by (simp add: join_Cons_not_empty)
  then show ?case by blast
qed

lemma earlier_element_first_in_document:
  assumes fin: "buildSvgState ns (xs @ a # ys @ b # zs) theme g = Inr fin"
    and ea: "elementOf ns theme a (counterAt ns theme (xs @ a # ys @ b # zs) (length xs)) = [ea]"
    and eb: "elementOf ns theme b
               (counterAt ns theme (xs @ a # ys @ b # zs) (Suc (length xs + length ys))) = [eb]"
  shows "\<exists>p m r. buildSvg ns w h (xs @ a # ys @ b # zs) theme g = Inr (p @ ea @ m @ eb @ r)"
proof -
  let ?st = "\<lparr>st_idCounter = 0, st_defs = [], st_elements = [], st_warnings = []\<rparr>"
  from fin have loop: "buildLoop ns theme (xs @ a # ys @ b # zs) ?st = Inr fin"
    by (simp add: buildSvgState_def)
  from element_of_earlier_annotation_first [OF loop] obtain sa sb mid rest where
    sa: "buildLoop ns theme xs ?st = Inr sa"
    and sb: "buildLoop ns theme (xs @ a # ys) ?st = Inr sb"
    and els: "st_elements fin =
             st_elements sa @ elementOf ns theme a (st_idCounter sa) @ mid
               @ elementOf ns theme b (st_idCounter sb) @ rest"
    by blast
  have ca: "counterAt ns theme (xs @ a # ys @ b # zs) (length xs) = st_idCounter sa"
    using sa by (simp add: counterAt_def buildSvgState_def)
  have "take (Suc (length xs + length ys)) (xs @ a # ys @ b # zs) = xs @ a # ys"
    by simp
  then have cb: "counterAt ns theme (xs @ a # ys @ b # zs) (Suc (length xs + length ys)) = st_idCounter sb"
    using sb by (simp add: counterAt_def buildSvgState_def)
  from els ea eb have els': "st_elements fin = st_elements sa @ ea # mid @ eb # rest"
    by (simp add: ca cb)
  from join_holds_elements_in_order [of "''\<newline>''" "st_elements sa" ea mid eb rest]
  obtain p m r where j: "join ''\<newline>'' (st_elements fin) = p @ ea @ m @ eb @ r"
    unfolding els' by blast
  from fin have "buildSvg ns w h (xs @ a # ys @ b # zs) theme g =
      Inr (document ns w h (st_defs fin) (st_elements fin))"
    by (simp add: buildSvg_def)
  then have \<open>buildSvg ns w h (xs @ a # ys @ b # zs) theme g =
      Inr ((''<?xml version="1.0" encoding="UTF-8"?>'' @ ''\<newline><svg width="'' @ toStr ns w @
            ''" height="'' @ toStr ns h @ ''" xmlns="http://www.w3.org/2000/svg">'' @
            ''\<newline>  <defs>'' @ ''\<newline>    '' @ join ''\<newline>'' (st_defs fin) @
            ''\<newline>  </defs>'' @ ''\<newline>  '' @ p) @ ea @ m @ eb @ (r @ ''\<newline></svg>''))\<close>
    by (simp add: document_def j)
  then show ?thesis
    by blast
qed

subsection \<open>Unknown types\<close>



subsection \<open>Determinism\<close>

lemma generateId_depends_on_counter:
  "fst (generateId pfx 0) \<noteq> fst (generateId pfx 1)"
  by (simp add: generateId_def natStr.simps digitChar_def)

text \<open>C7. The counter a build is entered with has no influence: \<^verbatim>\<open>buildSvg\<close> overwrites it
  with 0 before the loop. Two calls with the same width, height, annotations and theme
  return the same result, whatever the counter before each call was; the loop state, and
  with it every generated identifier, is the same too.\<close>

theorem buildSvg_deterministic:
  "buildSvg ns w h annotations theme g1 = buildSvg ns w h annotations theme g2
   \<and> buildSvgState ns annotations theme g1 = buildSvgState ns annotations theme g2"
  by (simp add: buildSvg_def buildSvgState_def)

subsection \<open>The reported count\<close>

text \<open>C9. A call of \<^verbatim>\<open>annotateImage\<close> that succeeds reports the length of the input list as
  \<^verbatim>\<open>annotationCount\<close>, whether or not some annotations were skipped.\<close>

theorem annotationCount_is_input_length:
  "annotateImage io ns inputPath outputPath annotations theme g = Inr r \<Longrightarrow>
     annotationCount r = length annotations"
  by (auto simp add: annotateImage_def split: if_splits sum.splits option.splits prod.splits)

text \<open>Three annotations, one of unknown type: the count is 3, while two elements were
  rendered.\<close>

theorem annotationCount_is_input_length_witness:
  "annotateImage exIo decimal ''photo.png'' ''out.png'' [exCircle, exSparkle, exRect] None 0 =
     Inr \<lparr>res_outputPath = ''out.png'', res_width = JNum 100, res_height = JNum 100,
          annotationCount = 3\<rparr>
   \<and> annotationCount \<lparr>res_outputPath = ''out.png'', res_width = JNum 100, res_height = JNum 100,
          annotationCount = 3\<rparr> = length [exCircle, exSparkle, exRect]
   \<and> map_sum id (\<lambda>st. length (st_elements st))
       (buildSvgState decimal [exCircle, exSparkle, exRect] None 0) = Inr 2"
proof -
  have run: "annotateImage exIo decimal ''photo.png'' ''out.png'' [exCircle, exSparkle, exRect] None 0 =
     Inr \<lparr>res_outputPath = ''out.png'', res_width = JNum 100, res_height = JNum 100,
          annotationCount = 3\<rparr>"
    by (simp add: annotateImage_def exIo_def buildSvg_def buildSvgState_three)
  from annotationCount_is_input_length [OF run] run show ?thesis
    by (simp add: buildSvgState_three)
qed

section \<open>Escaping of text\<close>

lemma replaceAll_append:
  "replaceAll c rep (xs @ ys) = replaceAll c rep xs @ replaceAll c rep ys"
  by (induction xs) simp_all

lemma escapeXmlStr_append: "escapeXmlStr (xs @ ys) = escapeXmlStr xs @ escapeXmlStr ys"
  by (simp add: escapeXmlStr_def replaceAll_append)

lemma escapeXmlStr_single: "escapeXmlStr [ch] = escapeChar ch"
  by (simp add: escapeXmlStr_def escapeChar_def)

lemma escapeXmlStr_chars: "escapeXmlStr s = concat (map escapeChar s)"
proof (induction s)
  case Nil
  show ?case by (simp add: escapeXmlStr_def)
next
  case (Cons ch s)
  have "escapeXmlStr (ch # s) = escapeXmlStr ([ch] @ s)"
    by simp
  also have "\<dots> = escapeChar ch @ escapeXmlStr s"
    by (simp only: escapeXmlStr_append escapeXmlStr_single)
  finally show ?case
    by (simp add: Cons.IH)
qed

lemma escapeChar_no_specials:
  "set (escapeChar ch) \<inter> {CHR ''<'', CHR ''>'', CHR 0x22, CHR 0x27} = {}"
  by (simp add: escapeChar_def)

lemma escapeXmlStr_no_specials:
  "set (escapeXmlStr s) \<inter> {CHR ''<'', CHR ''>'', CHR 0x22, CHR 0x27} = {}"
proof -
  have "set (concat (map escapeChar s)) \<inter> {CHR ''<'', CHR ''>'', CHR 0x22, CHR 0x27} = {}"
    using escapeChar_no_specials by (induction s) (auto simp add: Int_Un_distrib2)
  then show ?thesis
    by (simp only: escapeXmlStr_chars)
qed

lemma escapeXmlStr_example: \<open>escapeXmlStr ''<A & B>'' = ''&lt;A &amp; B&gt;''\<close>
  by (simp add: escapeXmlStr_def)

lemma join_empty_separator: "join [] xs = concat xs"
proof (induction xs)
  case Nil
  show ?case by simp
next
  case (Cons x xs)
  then show ?case by (cases xs) simp_all
qed

lemma labelText_suffix:
  \<open>suffix (''">'' @ escapeXmlStr s @ ''</text>'' @ ''\<newline>  '')
          (labelText ns x y textColor fontSize fontWeight (JStr s))\<close>
proof (rule suffixI)
  show \<open>labelText ns x y textColor fontSize fontWeight (JStr s) =
          (''\<newline>    <text x="'' @ toStr ns x @ ''" y="'' @ toStr ns y @ ''" fill="'' @
           toStr ns textColor @ ''" font-size="'' @ toStr ns fontSize @ ''"'' @
           ''\<newline>          font-weight="'' @ toStr ns fontWeight @
           ''" font-family="Arial, Helvetica, sans-serif'')
          @ ''">'' @ escapeXmlStr s @ ''</text>'' @ ''\<newline>  ''\<close>
    by (simp add: labelText_def escapeXml_def)
qed

lemma createLabel_result:
  "case createLabel ns a idCounter of
     Inl e \<Rightarrow> True
   | Inr (frag, c') \<Rightarrow>
       suffix (labelText ns (field a ''x'') (field a ''y'')
                 (getColor ns (fieldDefault a ''color'' (JStr ''darkGray'')))
                 (fieldDefault a ''fontSize'' (JNum 16)) (fieldDefault a ''fontWeight'' (JStr ''bold''))
                 (field a ''text''))
              (element frag)"
  by (simp add: createLabel_def Let_def generateId_def suffix_append suffix_Cons split: option.split)

lemma createLabel_text_node:
  assumes "createLabel ns a idCounter = Inr (frag, c')"
    and "field a ''text'' = JStr s"
  shows \<open>suffix (''">'' @ escapeXmlStr s @ ''</text>'' @ ''\<newline>  '') (element frag)\<close>
proof -
  from createLabel_result [of ns a idCounter] assms
  have "suffix (labelText ns (field a ''x'') (field a ''y'')
                 (getColor ns (fieldDefault a ''color'' (JStr ''darkGray'')))
                 (fieldDefault a ''fontSize'' (JNum 16)) (fieldDefault a ''fontWeight'' (JStr ''bold''))
                 (JStr s))
              (element frag)"
    by simp
  with labelText_suffix show ?thesis
    by (rule suffix_order.trans)
qed

text \<open>The \<^verbatim>\<open>tspan\<close> of each line of a callout, as the source writes it.\<close>

lemma tspans_lines:
  \<open>tspans ns boxX padding lineHeight i lines =
     map2 (\<lambda>j line. ''<tspan x="'' @ ns (boxX + padding) @ ''" dy="'' @
                       ns (if j = 0 then 0 else lineHeight) @ ''">'' @ escapeXmlStr line @ ''</tspan>'')
          [i..<i + length lines] lines\<close>
proof (induction lines arbitrary: i)
  case Nil
  show ?case by simp
next
  case (Cons line lines)
  have "[i..<i + length (line # lines)] = i # [Suc i..<Suc i + length lines]"
    by (subst upt_rec) simp
  then show ?case
    by (simp add: Cons.IH escapeXml_def)
qed

lemma calloutElement_sublist:
  \<open>sublist textElements
     (calloutElement ns filterAttr boxX boxY textWidth textHeight bgColor borderColor
        pointerPath padding fontSizeN fontSize textElements)\<close>
  unfolding sublist_def
proof (intro exI)
  show \<open>calloutElement ns filterAttr boxX boxY textWidth textHeight bgColor borderColor
          pointerPath padding fontSizeN fontSize textElements
        = (''\<newline>    <g '' @ filterAttr @ ''>'' @ ''\<newline>      <rect x="'' @
           ns boxX @ ''" y="'' @ ns boxY @ ''" width="'' @ ns textWidth @ ''" height="'' @
           ns textHeight @ ''"'' @ ''\<newline>            rx="6" fill="'' @
           toStr ns bgColor @ ''" stroke="'' @ toStr ns borderColor @
           ''" stroke-width="2"/>'' @ ''\<newline>      '' @
           (if pointerPath \<noteq> []
            then ''<path d="'' @ pointerPath @ ''" fill="'' @ toStr ns bgColor @
                 ''" stroke="'' @ toStr ns borderColor @ ''" stroke-width="2"/>''
            else []) @
           ''\<newline>      <text x="'' @ ns (boxX + padding) @ ''" y="'' @
           ns (boxY + padding + fontSizeN) @ ''"'' @ ''\<newline>            fill="'' @
           toStr ns (getColor ns (JStr ''darkGray'')) @ ''" font-size="'' @
           toStr ns fontSize @ ''" font-family="Arial, Helvetica, sans-serif">'' @
           ''\<newline>        '')
          @ textElements @ (''\<newline>      </text>'' @ ''\<newline>    </g>'' @ ''\<newline>  '')\<close>
    unfolding calloutElement_def by (simp only: append_assoc)
qed

lemma createCallout_result:
  assumes "field a ''text'' = JStr s"
  shows "case createCallout ns a idCounter of
     Inl e \<Rightarrow> True
   | Inr (frag, c') \<Rightarrow>
       (\<exists>boxX lineHeight.
          sublist (concat (tspans ns boxX 12 lineHeight 0 (split (CHR 0x0A) s))) (element frag))"
  using assms
  by (auto simp add: createCallout_def Let_def generateId_def join_empty_separator
      split: option.split prod.split intro!: exI calloutElement_sublist)

lemma createCallout_text_node:
  assumes "createCallout ns a idCounter = Inr (frag, c')"
    and "field a ''text'' = JStr s"
  shows "\<exists>boxX lineHeight.
          sublist (concat (tspans ns boxX 12 lineHeight 0 (split (CHR 0x0A) s))) (element frag)"
  using createCallout_result [OF assms(2), of ns idCounter] assms(1)
  by simp

text \<open>C6, for text that is a string. The text of a label or callout is escaped before it
  is put into the text node: \<^verbatim>\<open>escapeXml\<close> replaces every ampersand, angle bracket and quote
  of a string by its entity and keeps every other character, so the escaped text contains
  no angle bracket and no quote. The element of a label ends with the escaped text and the
  closing tag; the element of a callout contains one \<^verbatim>\<open>tspan\<close> per line, each holding the
  escaped line.\<close>

theorem text_is_escaped:
  assumes "field a ''text'' = JStr s"
  shows \<open>(createLabel ns a idCounter = Inr (frag, c') \<longrightarrow>
            suffix (''">'' @ escapeXmlStr s @ ''</text>'' @ ''\<newline>  '') (element frag))
       \<and> (createCallout ns a idCounter = Inr (frag, c') \<longrightarrow>
            (\<exists>boxX lineHeight.
               sublist
                 (concat (map2 (\<lambda>j line. ''<tspan x="'' @ ns (boxX + 12) @ ''" dy="'' @
                                  ns (if j = 0 then 0 else lineHeight) @ ''">'' @
                                  escapeXmlStr line @ ''</tspan>'')
                           [0..<0 + length (split (CHR 0x0A) s)] (split (CHR 0x0A) s)))
                 (element frag)))
       \<and> escapeXmlStr s = concat (map escapeChar s)
       \<and> set (escapeXmlStr s) \<inter> {CHR ''<'', CHR ''>'', CHR 0x22, CHR 0x27} = {}\<close>
proof (intro conjI impI)
  assume "createLabel ns a idCounter = Inr (frag, c')"
  from createLabel_text_node [OF this assms]
  show \<open>suffix (''">'' @ escapeXmlStr s @ ''</text>'' @ ''\<newline>  '') (element frag)\<close> .
next
  assume "createCallout ns a idCounter = Inr (frag, c')"
  from createCallout_text_node [OF this assms]
  show \<open>\<exists>boxX lineHeight.
               sublist
                 (concat (map2 (\<lambda>j line. ''<tspan x="'' @ ns (boxX + 12) @ ''" dy="'' @
                                  ns (if j = 0 then 0 else lineHeight) @ ''">'' @
                                  escapeXmlStr line @ ''</tspan>'')
                           [0..<0 + length (split (CHR 0x0A) s)] (split (CHR 0x0A) s)))
                 (element frag)\<close>
    unfolding tspans_lines .
next
  show "escapeXmlStr s = concat (map escapeChar s)"
    by (rule escapeXmlStr_chars)
next
  show "set (escapeXmlStr s) \<inter> {CHR ''<'', CHR ''>'', CHR 0x22, CHR 0x27} = {}"
    by (rule escapeXmlStr_no_specials)
qed

text \<open>The example of the claim: the label with the text \<^verbatim>\<open><A & B>\<close> renders
  \<^verbatim>\<open>&lt;A &amp; B&gt;\<close>; a callout with the same fields holds the same escaped text.\<close>

theorem text_is_escaped_witness:
  \<open>field exLabel ''text'' = JStr ''<A & B>''
   \<and> createLabel decimal exLabel 0 = Inr (\<lparr>defs = [], element = exLabelElement\<rparr>, 1)
   \<and> suffix (''">'' @ ''&lt;A &amp; B&gt;'' @ ''</text>'' @ ''\<newline>  '') exLabelElement
   \<and> (\<exists>frag. createCallout decimal exLabel 0 = Inr (frag, 1)
         \<and> sublist (''">'' @ ''&lt;A &amp; B&gt;'' @ ''</tspan>'') (element frag))\<close>
proof -
  have t: "field exLabel ''text'' = JStr ''<A & B>''"
    by (simp add: exLabel_def field_def)
  have l: "createLabel decimal exLabel 0 = Inr (\<lparr>defs = [], element = exLabelElement\<rparr>, 1)"
    using createLabel_example [of 0] by simp
  note lab = text_is_escaped [OF t, of decimal 0 "\<lparr>defs = [], element = exLabelElement\<rparr>" 1]
  from lab have \<open>createLabel decimal exLabel 0 = Inr (\<lparr>defs = [], element = exLabelElement\<rparr>, 1) \<longrightarrow>
      suffix (''">'' @ escapeXmlStr ''<A & B>'' @ ''</text>'' @ ''\<newline>  '')
        (element \<lparr>defs = [], element = exLabelElement\<rparr>)\<close>
    by (rule conjunct1)
  with l have e: \<open>suffix (''">'' @ ''&lt;A &amp; B&gt;'' @ ''</text>'' @ ''\<newline>  '') exLabelElement\<close>
    by (simp only: escapeXmlStr_example fragment.simps)
  have "\<exists>frag. createCallout decimal exLabel 0 = Inr (frag, 1)"
    by (simp add: createCallout_def exLabel_def field_def fieldDefault_def generateId_def Let_def
        split: prod.split)
  then obtain frag where c: "createCallout decimal exLabel 0 = Inr (frag, 1)"
    by blast
  have sp: \<open>split (CHR 0x0A) ''<A & B>'' = [''<A & B>'']\<close>
    by simp
  from text_is_escaped [OF t, of decimal 0 frag 1] c obtain boxX lineHeight where
    \<open>sublist
       (concat (map2 (\<lambda>j line. ''<tspan x="'' @ decimal (boxX + 12) @ ''" dy="'' @
                        decimal (if j = 0 then 0 else lineHeight) @ ''">'' @
                        escapeXmlStr line @ ''</tspan>'')
                 [0..<0 + length (split (CHR 0x0A) ''<A & B>'')] (split (CHR 0x0A) ''<A & B>'')))
       (element frag)\<close>
    by blast
  then have whole: \<open>sublist
      ((''<tspan x="'' @ decimal (boxX + 12) @ ''" dy="'' @ decimal 0) @
         (''">'' @ ''&lt;A &amp; B&gt;'' @ ''</tspan>''))
      (element frag)\<close>
    unfolding sp by (simp add: escapeXmlStr_example)
  have \<open>sublist (''">'' @ ''&lt;A &amp; B&gt;'' @ ''</tspan>'')
      ((''<tspan x="'' @ decimal (boxX + 12) @ ''" dy="'' @ decimal 0) @
         (''">'' @ ''&lt;A &amp; B&gt;'' @ ''</tspan>''))\<close>
    by (rule sublist_append_leftI)
  from this whole have \<open>sublist (''">'' @ ''&lt;A &amp; B&gt;'' @ ''</tspan>'') (element frag)\<close>
    by (rule sublist_order.order.trans)
  with c have \<open>\<exists>frag. createCallout decimal exLabel 0 = Inr (frag, 1)
         \<and> sublist (''">'' @ ''&lt;A &amp; B&gt;'' @ ''</tspan>'') (element frag)\<close>
    by blast
  with t l e show ?thesis
    by (intro conjI)
qed

text \<open>C6, for every text value: refuted. \<^verbatim>\<open>escapeXml\<close> escapes strings only; its first line
  returns \<^verbatim>\<open>String(text)\<close> as it is for any other value. A label whose text is the array
  \<^verbatim>\<open>['<b>']\<close> is compiled without an error, and its text node holds the raw \<^verbatim>\<open><b>\<close>: the
  angle brackets are not replaced by entities. (A callout with the same text does not
  produce an element: \<^verbatim>\<open>text.split\<close> throws a \<^verbatim>\<open>TypeError\<close>.)\<close>

theorem text_is_escaped_counterexample:
  \<open>field exArrayLabel ''text'' = JArr [JStr ''<b>'']
   \<and> createLabel decimal exArrayLabel 0 = Inr (\<lparr>defs = [], element = exArrayLabelElement\<rparr>, 1)
   \<and> suffix (''"><b></text>'' @ ''\<newline>  '') exArrayLabelElement
   \<and> escapeXml decimal (JArr [JStr ''<b>'']) = ''<b>''
   \<and> CHR ''<'' \<in> set (escapeXml decimal (JArr [JStr ''<b>'']))
   \<and> createCallout decimal exArrayLabel 0 = Inl TypeError\<close>
proof (intro conjI)
  show "field exArrayLabel ''text'' = JArr [JStr ''<b>'']"
    by (simp add: exArrayLabel_def field_def)
  show "createLabel decimal exArrayLabel 0 = Inr (\<lparr>defs = [], element = exArrayLabelElement\<rparr>, 1)"
    by (simp add: createLabel_def labelText_def exArrayLabel_def exArrayLabelElement_def field_def
        fieldDefault_def getColor_darkGray generateId_def decimal_examples escapeXml_def)
  show \<open>suffix (''"><b></text>'' @ ''\<newline>  '') exArrayLabelElement\<close>
    unfolding exArrayLabelElement_def by (rule suffixI) (rule refl)
  show e: "escapeXml decimal (JArr [JStr ''<b>'']) = ''<b>''"
    by (simp add: escapeXml_def)
  show "CHR ''<'' \<in> set (escapeXml decimal (JArr [JStr ''<b>'']))"
    unfolding e by simp
  show "createCallout decimal exArrayLabel 0 = Inl TypeError"
    by (simp add: createCallout_def exArrayLabel_def field_def fieldDefault_def Let_def)
qed

section \<open>Curved arrow\<close>

text \<open>Over the real numbers the divisor of the normal is never zero, and an arrow whose
  end points coincide has its control point at that point. (What the source computes on
  IEEE-754 doubles at the limits of their range is outside this development.)\<close>

lemma segmentLength_positive: "0 < segmentLength dx dy"
proof -
  have "0 \<le> sqrt (dx * dx + dy * dy)"
    by simp
  then show ?thesis
    unfolding segmentLength_def Let_def by (simp add: less_le)
qed

lemma segmentLength_degenerate: "segmentLength 0 0 = 1"
  by (simp add: segmentLength_def)

lemma controlPoint_degenerate: "controlPoint x y x y curve = (x, y)"
  by (simp add: controlPoint_def segmentLength_degenerate)

end
